theory Spec2Isabelle
  imports Complex_Main "HOL-Library.Word"
begin

section \<open>Request arguments\<close>

text \<open>
  A tool request carries \<^verbatim>\<open>map[string]interface{}\<close>, the decoded JSON arguments. A
  decoded JSON number is a Go \<^verbatim>\<open>float64\<close>; JSON has no NaN and no infinity, so every
  such number is a rational, and the handlers only test its type and convert it. A key
  of the Go map that is absent is \<open>None\<close>; a key bound to JSON null is \<open>Some JNull\<close>;
  indexing the Go map gives \<^verbatim>\<open>nil\<close> in both cases.
\<close>

datatype json =
    JNull
  | JBool bool
  | JNumber rat
  | JString string
  | JArray "json list"
  | JObject "(string \<times> json) list"

type_synonym arguments = "string \<rightharpoonup> json"

type_synonym go_error = string

text \<open>The Go expression \<^verbatim>\<open>request.GetArguments()[key] != nil\<close>.\<close>

definition arg_not_nil :: "arguments \<Rightarrow> string \<Rightarrow> bool" where
  "arg_not_nil request key =
     (case request key of None \<Rightarrow> False | Some JNull \<Rightarrow> False | Some _ \<Rightarrow> True)"

text \<open>
  The type assertions \<^verbatim>\<open>.(string)\<close>, \<^verbatim>\<open>.(float64)\<close>, \<^verbatim>\<open>.(bool)\<close> that the type
  argument of \<^verbatim>\<open>requiredParam[T]\<close> and \<^verbatim>\<open>OptionalParam[T]\<close> selects.
\<close>

fun as_string :: "json \<Rightarrow> string option" where
  "as_string (JString s) = Some s"
| "as_string _ = None"

fun as_float64 :: "json \<Rightarrow> rat option" where
  "as_float64 (JNumber x) = Some x"
| "as_float64 _ = None"

fun as_bool :: "json \<Rightarrow> bool option" where
  "as_bool (JBool b) = Some b"
| "as_bool _ = None"

section \<open>The argument extractor\<close>

text \<open>The three validation failures of the error taxonomy, each naming the parameter.\<close>

datatype param_error =
    MissingParameter string
  | WrongType string
  | OutOfRange string

text \<open>
  Modelled from the spec: \<^verbatim>\<open>requiredParam[T]\<close> is called by every handler of
  \<^verbatim>\<open>releases.go\<close> and \<^verbatim>\<open>search.go\<close> and is declared in a file that is not part of
  the sources at hand. The specification's \<open>requiredValue(args, key, kind)\<close>: it returns the
  value coerced to the kind, fails with \<open>MissingParameter\<close> when the key is absent or
  explicitly null, and with \<open>WrongType\<close> when the value is present but not of the kind
  (no numeric-string coercion). An empty string is a valid required string.
\<close>

definition requiredParam ::
  "(json \<Rightarrow> 'a option) \<Rightarrow> arguments \<Rightarrow> string \<Rightarrow> param_error + 'a" where
  "requiredParam kind request p =
     (case request p of
        None \<Rightarrow> Inl (MissingParameter p)
      | Some JNull \<Rightarrow> Inl (MissingParameter p)
      | Some v \<Rightarrow> (case kind v of None \<Rightarrow> Inl (WrongType p) | Some x \<Rightarrow> Inr x))"

text \<open>
  Modelled from the spec: \<^verbatim>\<open>OptionalParam[T]\<close>, declared in the same missing file. The
  specification's \<open>optionalValue(args, key, kind, zeroValueIfAbsent)\<close>: the coerced value
  when present, the kind's zero value when absent (a key counts as present only if its
  value is non-null), \<open>WrongType\<close> under the same mismatch rule, never a failure for
  absence.
\<close>

definition OptionalParam ::
  "(json \<Rightarrow> 'a option) \<Rightarrow> 'a \<Rightarrow> arguments \<Rightarrow> string \<Rightarrow> param_error + 'a" where
  "OptionalParam kind zero request p =
     (case request p of
        None \<Rightarrow> Inr zero
      | Some JNull \<Rightarrow> Inr zero
      | Some v \<Rightarrow> (case kind v of None \<Rightarrow> Inl (WrongType p) | Some x \<Rightarrow> Inr x))"

section \<open>The pagination resolver\<close>

record PaginationParams =
  page :: int
  perPage :: int

text \<open>
  Modelled from the spec: the optional extraction of an integer, on which the resolver
  rests and which is declared in the missing file. The number is read through its
  floating-point representation and narrowed to the target integer width, the 64 bits
  of the Go \<^verbatim>\<open>int\<close> that the page and the page size are; a number that is not integral
  is a \<open>WrongType\<close> failure, it is not floored, and so is a number that the width cannot
  hold, which is not coercible to the kind; an absent or null key gives the default.
\<close>

definition integral :: "rat \<Rightarrow> bool" where
  "integral x = (of_int \<lfloor>x\<rfloor> = x)"

definition optionalInteger ::
  "arguments \<Rightarrow> string \<Rightarrow> int \<Rightarrow> param_error + int" where
  "optionalInteger request p d =
     (case request p of
        None \<Rightarrow> Inr d
      | Some JNull \<Rightarrow> Inr d
      | Some v \<Rightarrow>
          (case as_float64 v of
             None \<Rightarrow> Inl (WrongType p)
           | Some x \<Rightarrow>
               if integral x \<and> - (2 ^ 63) \<le> \<lfloor>x\<rfloor> \<and> \<lfloor>x\<rfloor> < 2 ^ 63 then Inr \<lfloor>x\<rfloor>
               else Inl (WrongType p)))"

text \<open>
  Modelled from the spec: \<^verbatim>\<open>OptionalPaginationParams\<close>, called by the list and search
  handlers and declared in the missing file. The specification's \<open>resolvePagination\<close>:
  \<open>page\<close> defaults to 1 and must be a positive integer; \<open>perPage\<close> defaults to 30 and must
  be a positive integer not exceeding 100; a value outside its range fails with
  \<open>OutOfRange\<close>, it is not clamped. \<open>page\<close> is resolved before \<open>perPage\<close>, the order in
  which the descriptor lists them.
\<close>

definition OptionalPaginationParams :: "arguments \<Rightarrow> param_error + PaginationParams" where
  "OptionalPaginationParams request =
     (case optionalInteger request ''page'' 1 of
        Inl err \<Rightarrow> Inl err
      | Inr pg \<Rightarrow>
          if pg < 1 then Inl (OutOfRange ''page'')
          else
            (case optionalInteger request ''perPage'' 30 of
               Inl err \<Rightarrow> Inl err
             | Inr pp \<Rightarrow>
                 if pp < 1 \<or> 100 < pp then Inl (OutOfRange ''perPage'')
                 else Inr \<lparr>page = pg, perPage = pp\<rparr>))"

section \<open>Tool handlers\<close>

text \<open>
  A handler returns \<^verbatim>\<open>(*mcp.CallToolResult, error)\<close>: \<open>Inr\<close> a tool result with a nil
  error, or \<open>Inl\<close> a Go error with a nil result. A tool result made by
  \<^verbatim>\<open>mcp.NewToolResultError(err.Error())\<close> carries the validation failure; the other error
  results carry a formatted message.
\<close>

datatype failure_text = ParamError param_error | Message string

datatype CallToolResult = NewToolResultError failure_text | NewToolResultText string

record ListOptions =
  lo_Page :: int
  lo_PerPage :: int

record SearchOptions =
  so_Sort :: string
  so_Order :: string
  so_ListOptions :: ListOptions

text \<open>
  The fields of \<^verbatim>\<open>github.RepositoryRelease\<close> that the update handler may set; every
  other field of the library's struct stays nil in \<^verbatim>\<open>&github.RepositoryRelease{}\<close>.
\<close>

record RepositoryRelease =
  rr_TagName :: "string option"
  rr_TargetCommitish :: "string option"
  rr_Name :: "string option"
  rr_Body :: "string option"
  rr_Draft :: "bool option"
  rr_Prerelease :: "bool option"
  rr_DiscussionCategoryName :: "string option"
  rr_MakeLatest :: "string option"

text \<open>
  What a handler does to the outside world, in order: it asks for a client, and it calls
  the remote API through it.
\<close>

datatype api_call =
    Repositories_ListReleases string string ListOptions
  | Repositories_GetRelease string string "64 word"
  | Repositories_EditRelease string string "64 word" RepositoryRelease
  | Search_Users string SearchOptions

datatype event = GetClient | Call api_call

text \<open>
  What a call of the client returns: the error, the response's status code, what
  \<^verbatim>\<open>io.ReadAll(resp.Body)\<close> gives, and the decoded value.
\<close>

record 'v response =
  r_err :: "go_error option"
  r_StatusCode :: int
  r_Body :: "go_error + string"
  r_value :: 'v

type_synonym outcome = "event list \<times> (go_error + CallToolResult)"

text \<open>
  \<^verbatim>\<open>v, err := ...; if err != nil { return mcp.NewToolResultError(err.Error()), nil }\<close>:
  the step itself touches nothing outside.
\<close>

definition checked :: "param_error + 'a \<Rightarrow> ('a \<Rightarrow> outcome) \<Rightarrow> outcome" where
  "checked r k =
     (case r of
        Inl err \<Rightarrow> ([], Inr (NewToolResultError (ParamError err)))
      | Inr v \<Rightarrow> k v)"

text \<open>An effect, followed by the rest of the handler.\<close>

definition emit :: "event \<Rightarrow> outcome \<Rightarrow> outcome" where
  "emit e k = (e # fst k, snd k)"

text \<open>
  \<^verbatim>\<open>client, err := getClient(ctx)\<close> and the wrapped error; \<open>getClient\<close> is \<open>Some err\<close>
  when the factory fails.
\<close>

definition with_client :: "go_error option \<Rightarrow> outcome \<Rightarrow> outcome" where
  "with_client getClient k =
     emit GetClient
       (case getClient of
          Some err \<Rightarrow> ([], Inl (''failed to get GitHub client: '' @ err))
        | None \<Rightarrow> k)"

text \<open>
  The tail every handler repeats after its call: the call's error, the status check with
  the body read for the message, and \<^verbatim>\<open>json.Marshal\<close> of the value.
\<close>

definition finish ::
  "string \<Rightarrow> string \<Rightarrow> ('v \<Rightarrow> go_error + string) \<Rightarrow> 'v response \<Rightarrow> go_error + CallToolResult" where
  "finish what marshalled marshal resp =
     (case r_err resp of
        Some err \<Rightarrow> Inl (''failed to '' @ what @ '': '' @ err)
      | None \<Rightarrow>
          if r_StatusCode resp \<noteq> 200 then
            (case r_Body resp of
               Inl err \<Rightarrow> Inl (''failed to read response body: '' @ err)
             | Inr body \<Rightarrow>
                 Inr (NewToolResultError (Message (''failed to '' @ what @ '': '' @ body))))
          else
            (case marshal (r_value resp) of
               Inl err \<Rightarrow> Inl (''failed to marshal '' @ marshalled @ '': '' @ err)
             | Inr r \<Rightarrow> Inr (NewToolResultText r)))"

subsection \<open>list_releases\<close>

definition ListReleases ::
  "go_error option \<Rightarrow> (api_call \<Rightarrow> 'v response) \<Rightarrow> ('v \<Rightarrow> go_error + string) \<Rightarrow>
   arguments \<Rightarrow> outcome" where
  "ListReleases getClient api marshal request =
     checked (requiredParam as_string request ''owner'') (\<lambda>owner.
     checked (requiredParam as_string request ''repo'') (\<lambda>repo.
     checked (OptionalPaginationParams request) (\<lambda>pagination.
       let opts = \<lparr>lo_Page = page pagination, lo_PerPage = perPage pagination\<rparr>;
           call = Repositories_ListReleases owner repo opts
       in with_client getClient
            (emit (Call call) ([], finish ''list releases'' ''releases'' marshal (api call))))))"

subsection \<open>get_release\<close>

text \<open>
  The Go conversion \<^verbatim>\<open>int64(releaseID)\<close> of a \<^verbatim>\<open>float64\<close>: the fraction is discarded
  (truncation towards zero). When the truncated value does not fit 64 bits the conversion
  still succeeds and its result depends on the implementation, here \<open>impl\<close>.
\<close>

definition truncate_toward_zero :: "rat \<Rightarrow> int" where
  "truncate_toward_zero x = (if 0 \<le> x then \<lfloor>x\<rfloor> else \<lceil>x\<rceil>)"

definition int64 :: "(rat \<Rightarrow> 64 word) \<Rightarrow> rat \<Rightarrow> 64 word" where
  "int64 impl x =
     (let t = truncate_toward_zero x
      in if - (2 ^ 63) \<le> t \<and> t < 2 ^ 63 then word_of_int t else impl x)"

definition GetRelease ::
  "go_error option \<Rightarrow> (api_call \<Rightarrow> 'v response) \<Rightarrow> ('v \<Rightarrow> go_error + string) \<Rightarrow>
   (rat \<Rightarrow> 64 word) \<Rightarrow> arguments \<Rightarrow> outcome" where
  "GetRelease getClient api marshal impl request =
     checked (requiredParam as_string request ''owner'') (\<lambda>owner.
     checked (requiredParam as_string request ''repo'') (\<lambda>repo.
     checked (requiredParam as_float64 request ''release_id'') (\<lambda>releaseID.
       let call = Repositories_GetRelease owner repo (int64 impl releaseID)
       in with_client getClient
            (emit (Call call) ([], finish ''get release'' ''response'' marshal (api call))))))"

subsection \<open>update_release\<close>

text \<open>
  The patch object the handler builds from the extracted optional values: a string field
  is set when the extracted string is not empty, a boolean field when the request's
  argument is not nil.
\<close>

definition releaseRequest ::
  "arguments \<Rightarrow> string \<Rightarrow> string \<Rightarrow> string \<Rightarrow> string \<Rightarrow> bool \<Rightarrow> bool \<Rightarrow> string \<Rightarrow> string \<Rightarrow>
   RepositoryRelease" where
  "releaseRequest request tagName targetCommitish name body draft prerelease
     discussionCategoryName makeLatest =
     \<lparr>rr_TagName = (if tagName \<noteq> '''' then Some tagName else None),
      rr_TargetCommitish = (if targetCommitish \<noteq> '''' then Some targetCommitish else None),
      rr_Name = (if name \<noteq> '''' then Some name else None),
      rr_Body = (if body \<noteq> '''' then Some body else None),
      rr_Draft = (if arg_not_nil request ''draft'' then Some draft else None),
      rr_Prerelease = (if arg_not_nil request ''prerelease'' then Some prerelease else None),
      rr_DiscussionCategoryName =
        (if discussionCategoryName \<noteq> '''' then Some discussionCategoryName else None),
      rr_MakeLatest = (if makeLatest \<noteq> '''' then Some makeLatest else None)\<rparr>"

definition UpdateRelease ::
  "go_error option \<Rightarrow> (api_call \<Rightarrow> 'v response) \<Rightarrow> ('v \<Rightarrow> go_error + string) \<Rightarrow>
   (rat \<Rightarrow> 64 word) \<Rightarrow> arguments \<Rightarrow> outcome" where
  "UpdateRelease getClient api marshal impl request =
     checked (requiredParam as_string request ''owner'') (\<lambda>owner.
     checked (requiredParam as_string request ''repo'') (\<lambda>repo.
     checked (requiredParam as_float64 request ''release_id'') (\<lambda>releaseID.
     checked (OptionalParam as_string '''' request ''tag_name'') (\<lambda>tagName.
     checked (OptionalParam as_string '''' request ''target_commitish'') (\<lambda>targetCommitish.
     checked (OptionalParam as_string '''' request ''name'') (\<lambda>name.
     checked (OptionalParam as_string '''' request ''body'') (\<lambda>body.
     checked (OptionalParam as_bool False request ''draft'') (\<lambda>draft.
     checked (OptionalParam as_bool False request ''prerelease'') (\<lambda>prerelease.
     checked (OptionalParam as_string '''' request ''discussion_category_name'')
       (\<lambda>discussionCategoryName.
     checked (OptionalParam as_string '''' request ''make_latest'') (\<lambda>makeLatest.
       let patch = releaseRequest request tagName targetCommitish name body draft prerelease
                     discussionCategoryName makeLatest;
           call = Repositories_EditRelease owner repo (int64 impl releaseID) patch
       in with_client getClient
            (emit (Call call)
               ([], finish ''update release'' ''response'' marshal (api call))))))))))))))"

subsection \<open>search_users\<close>

text \<open>
  The fields of \<^verbatim>\<open>github.User\<close> and \<^verbatim>\<open>github.UsersSearchResult\<close> that the handler reads,
  through the library's nil-safe getters: a getter of a nil struct or of a nil field
  gives the zero value.
\<close>

record User =
  u_Login :: "string option"
  u_ID :: "64 word option"
  u_HTMLURL :: "string option"
  u_AvatarURL :: "string option"

record UsersSearchResult =
  usr_Total :: "int option"
  usr_IncompleteResults :: "bool option"
  usr_Users :: "User option list option"

record MinimalUser =
  mu_Login :: string
  mu_ID :: "64 word"
  mu_ProfileURL :: string
  mu_AvatarURL :: string

record MinimalSearchUsersResult =
  msr_TotalCount :: int
  msr_IncompleteResults :: bool
  msr_Items :: "MinimalUser list"

definition getter :: "('s \<Rightarrow> 'a option) \<Rightarrow> 'a \<Rightarrow> 's option \<Rightarrow> 'a" where
  "getter field zero p =
     (case p of
        None \<Rightarrow> zero
      | Some s \<Rightarrow> (case field s of None \<Rightarrow> zero | Some v \<Rightarrow> v))"

definition minimalUser :: "User option \<Rightarrow> MinimalUser" where
  "minimalUser user =
     \<lparr>mu_Login = getter u_Login '''' user,
      mu_ID = getter u_ID 0 user,
      mu_ProfileURL = getter u_HTMLURL '''' user,
      mu_AvatarURL = getter u_AvatarURL '''' user\<rparr>"

text \<open>Ranging over a nil slice runs no iteration; the items start as an empty slice.\<close>

definition minimalResp :: "UsersSearchResult \<Rightarrow> MinimalSearchUsersResult" where
  "minimalResp result =
     \<lparr>msr_TotalCount = (case usr_Total result of None \<Rightarrow> 0 | Some n \<Rightarrow> n),
      msr_IncompleteResults =
        (case usr_IncompleteResults result of None \<Rightarrow> False | Some b \<Rightarrow> b),
      msr_Items =
        map minimalUser (case usr_Users result of None \<Rightarrow> [] | Some users \<Rightarrow> users)\<rparr>"

definition SearchUsers ::
  "go_error option \<Rightarrow> (api_call \<Rightarrow> UsersSearchResult response) \<Rightarrow>
   (MinimalSearchUsersResult \<Rightarrow> go_error + string) \<Rightarrow> arguments \<Rightarrow> outcome" where
  "SearchUsers getClient api marshal request =
     checked (requiredParam as_string request ''q'') (\<lambda>query.
     checked (OptionalParam as_string '''' request ''sort'') (\<lambda>sort.
     checked (OptionalParam as_string '''' request ''order'') (\<lambda>order.
     checked (OptionalPaginationParams request) (\<lambda>pagination.
       let opts = \<lparr>so_Sort = sort, so_Order = order,
                   so_ListOptions =
                     \<lparr>lo_Page = page pagination, lo_PerPage = perPage pagination\<rparr>\<rparr>;
           call = Search_Users (''type:user '' @ query) opts
       in with_client getClient
            (emit (Call call)
               ([], finish ''search users'' ''response''
                      (\<lambda>result. marshal (minimalResp result)) (api call)))))))"

section \<open>Response sanitizers\<close>

text \<open>
  A Go pointer is an \<open>option\<close> (\<open>None\<close> is nil) and a slice is a list \<open>option\<close> (\<open>None\<close> is
  the nil slice). The library's source structs are records holding the fields the cleaners
  read; the theorems range over every extension of these records, which stands for all
  the other fields of the library's structs (the API, clone and link URLs among them).
\<close>

subsection \<open>Repository contents\<close>

record RepositoryContent =
  rc_Type :: "string option"
  rc_Target :: "string option"
  rc_Encoding :: "string option"
  rc_Size :: "int option"
  rc_Name :: "string option"
  rc_Path :: "string option"
  rc_Content :: "string option"
  rc_SHA :: "string option"

record CleanedRepositoryContent =
  crc_Type :: "string option"
  crc_Target :: "string option"
  crc_Encoding :: "string option"
  crc_Size :: "int option"
  crc_Name :: "string option"
  crc_Path :: "string option"
  crc_Content :: "string option"
  crc_SHA :: "string option"

text \<open>
  \<open>GetContent\<close> is the library's decoder \<^verbatim>\<open>content.GetContent()\<close>, returning the decoded
  text or an error. The cleaner returns \<^verbatim>\<open>(*CleanedRepositoryContent, error)\<close>, here a
  pair whose second component is the error (\<open>None\<close> is nil).
\<close>

definition cleanRepositoryContent ::
  "('a RepositoryContent_scheme \<Rightarrow> go_error + string) \<Rightarrow> 'a RepositoryContent_scheme option \<Rightarrow>
   CleanedRepositoryContent option \<times> go_error option" where
  "cleanRepositoryContent GetContent content =
     (case content of
        None \<Rightarrow> (None, None)
      | Some c \<Rightarrow>
          let cleaned =
                \<lparr>crc_Type = rc_Type c, crc_Target = rc_Target c, crc_Encoding = None,
                 crc_Size = rc_Size c, crc_Name = rc_Name c, crc_Path = rc_Path c,
                 crc_Content = None, crc_SHA = rc_SHA c\<rparr>
          in if rc_Content c \<noteq> None then
               (case GetContent c of
                  Inl err \<Rightarrow>
                    (Some (cleaned\<lparr>crc_Content := rc_Content c, crc_Encoding := rc_Encoding c\<rparr>),
                     None)
                | Inr decodedContent \<Rightarrow>
                    (Some (cleaned\<lparr>crc_Content := Some decodedContent,
                                   crc_Encoding := Some ''text''\<rparr>),
                     None))
             else (Some cleaned, None))"

text \<open>
  The loop of the slice cleaner over the elements still to be cleaned: \<open>cleaned\<close> holds
  the elements written so far; an error of an element returns it with a nil slice.
\<close>

fun cleanRepositoryContentLoop ::
  "('a RepositoryContent_scheme \<Rightarrow> go_error + string) \<Rightarrow>
   CleanedRepositoryContent option list \<Rightarrow> 'a RepositoryContent_scheme option list \<Rightarrow>
   CleanedRepositoryContent option list option \<times> go_error option" where
  "cleanRepositoryContentLoop GetContent cleaned [] = (Some cleaned, None)"
| "cleanRepositoryContentLoop GetContent cleaned (content # contents) =
     (case cleanRepositoryContent GetContent content of
        (cleanedContent, Some err) \<Rightarrow> (None, Some err)
      | (cleanedContent, None) \<Rightarrow>
          cleanRepositoryContentLoop GetContent (cleaned @ [cleanedContent]) contents)"

definition cleanRepositoryContentSlice ::
  "('a RepositoryContent_scheme \<Rightarrow> go_error + string) \<Rightarrow>
   'a RepositoryContent_scheme option list option \<Rightarrow>
   CleanedRepositoryContent option list option \<times> go_error option" where
  "cleanRepositoryContentSlice GetContent contents =
     (case contents of
        None \<Rightarrow> (None, None)
      | Some cs \<Rightarrow> cleanRepositoryContentLoop GetContent [] cs)"

subsection \<open>Repositories in search results\<close>

record Owner =
  o_Login :: "string option"
  o_ID :: "64 word option"
  o_Type :: "string option"

record 'o Repository =
  repo_ID :: "64 word option"
  repo_Name :: "string option"
  repo_FullName :: "string option"
  repo_Owner :: "'o option"
  repo_Private :: "bool option"
  repo_Fork :: "bool option"
  repo_HTMLURL :: "string option"

record CleanedUser =
  cu_Login :: "string option"
  cu_ID :: "64 word option"
  cu_Type :: "string option"

record CleanedRepository =
  cr_ID :: "64 word option"
  cr_Name :: "string option"
  cr_FullName :: "string option"
  cr_Owner :: "CleanedUser option"
  cr_Private :: "bool option"
  cr_Fork :: "bool option"
  cr_HTMLURL :: "string option"

definition cleanRepositoryForSearch ::
  "('a Owner_scheme, 'b) Repository_scheme option \<Rightarrow> CleanedRepository option" where
  "cleanRepositoryForSearch repo =
     (case repo of
        None \<Rightarrow> None
      | Some r \<Rightarrow>
          let cleaned =
                \<lparr>cr_ID = repo_ID r, cr_Name = repo_Name r, cr_FullName = repo_FullName r,
                 cr_Owner = None, cr_Private = repo_Private r, cr_Fork = repo_Fork r,
                 cr_HTMLURL = repo_HTMLURL r\<rparr>
          in (case repo_Owner r of
                Some owner \<Rightarrow>
                  Some (cleaned\<lparr>cr_Owner :=
                          Some \<lparr>cu_Login = o_Login owner, cu_ID = o_ID owner,
                                cu_Type = o_Type owner\<rparr>\<rparr>)
              | None \<Rightarrow> Some cleaned))"

text \<open>
  The keys of the JSON object that \<^verbatim>\<open>encoding/json\<close> writes for a cleaned value: every
  field carries its tag with \<^verbatim>\<open>omitempty\<close>, so a nil pointer writes no key.
\<close>

definition key_if :: "'a option \<Rightarrow> string \<Rightarrow> string list" where
  "key_if field k = (case field of None \<Rightarrow> [] | Some _ \<Rightarrow> [k])"

definition CleanedUser_keys :: "CleanedUser \<Rightarrow> string list" where
  "CleanedUser_keys u =
     key_if (cu_Login u) ''login'' @ key_if (cu_ID u) ''id'' @ key_if (cu_Type u) ''type''"

definition CleanedRepository_keys :: "CleanedRepository \<Rightarrow> string list" where
  "CleanedRepository_keys c =
     key_if (cr_ID c) ''id'' @ key_if (cr_Name c) ''name'' @
     key_if (cr_FullName c) ''full_name'' @ key_if (cr_Owner c) ''owner'' @
     key_if (cr_Private c) ''private'' @ key_if (cr_Fork c) ''fork'' @
     key_if (cr_HTMLURL c) ''html_url''"

subsection \<open>Code search results\<close>

record Match =
  m_Text :: "string option"
  m_Indices :: "int list option"

record TextMatch =
  tm_ObjectType :: "string option"
  tm_Property :: "string option"
  tm_Fragment :: "string option"
  tm_Matches :: "Match option list option"

record ('o, 'r, 't) CodeResult =
  cres_Name :: "string option"
  cres_Path :: "string option"
  cres_SHA :: "string option"
  cres_Repository :: "('o, 'r) Repository_scheme option"
  cres_TextMatches :: "'t TextMatch_scheme option list option"

record ('o, 'r, 't, 'c) CodeSearchResult =
  csr_Total :: "int option"
  csr_IncompleteResults :: "bool option"
  csr_CodeResults :: "('o, 'r, 't, 'c) CodeResult_scheme option list option"

record CleanedTextMatch =
  ctm_ObjectType :: "string option"
  ctm_Property :: "string option"
  ctm_Fragment :: "string option"
  ctm_Matches :: "Match option list option"

record CleanedCodeResult =
  ccr_Name :: "string option"
  ccr_Path :: "string option"
  ccr_SHA :: "string option"
  ccr_Repository :: "CleanedRepository option"
  ccr_TextMatches :: "CleanedTextMatch option list option"

record CleanedCodeSearchResult =
  ccsr_Total :: "int option"
  ccsr_IncompleteResults :: "bool option"
  ccsr_CodeResults :: "CleanedCodeResult option list option"

definition cleanTextMatch :: "'t TextMatch_scheme option \<Rightarrow> CleanedTextMatch option" where
  "cleanTextMatch textMatch =
     (case textMatch of
        None \<Rightarrow> None
      | Some tm \<Rightarrow>
          let cleaned =
                \<lparr>ctm_ObjectType = tm_ObjectType tm, ctm_Property = tm_Property tm,
                 ctm_Fragment = tm_Fragment tm, ctm_Matches = None\<rparr>
          in if tm_Matches tm \<noteq> None
             then Some (cleaned\<lparr>ctm_Matches := tm_Matches tm\<rparr>)
             else Some cleaned)"

definition cleanCodeResult ::
  "('a Owner_scheme, 'r, 't, 'c) CodeResult_scheme option \<Rightarrow> CleanedCodeResult option" where
  "cleanCodeResult result =
     (case result of
        None \<Rightarrow> None
      | Some r \<Rightarrow>
          let cleaned =
                \<lparr>ccr_Name = cres_Name r, ccr_Path = cres_Path r, ccr_SHA = cres_SHA r,
                 ccr_Repository =
                   (if cres_Repository r \<noteq> None
                    then cleanRepositoryForSearch (cres_Repository r) else None),
                 ccr_TextMatches = None\<rparr>
          in (case cres_TextMatches r of
                Some textMatches \<Rightarrow>
                  Some (cleaned\<lparr>ccr_TextMatches := Some (map cleanTextMatch textMatches)\<rparr>)
              | None \<Rightarrow> Some cleaned))"

definition cleanCodeSearchResult ::
  "('a Owner_scheme, 'r, 't, 'c, 's) CodeSearchResult_scheme option \<Rightarrow>
   CleanedCodeSearchResult option" where
  "cleanCodeSearchResult result =
     (case result of
        None \<Rightarrow> None
      | Some r \<Rightarrow>
          let cleaned =
                \<lparr>ccsr_Total = csr_Total r, ccsr_IncompleteResults = csr_IncompleteResults r,
                 ccsr_CodeResults = None\<rparr>
          in (case csr_CodeResults r of
                Some codeResults \<Rightarrow>
                  Some (cleaned\<lparr>ccsr_CodeResults := Some (map cleanCodeResult codeResults)\<rparr>)
              | None \<Rightarrow> Some cleaned))"

section \<open>Facts about the extractor and the handler steps\<close>

lemma checked_Inl: "checked (Inl err) k = ([], Inr (NewToolResultError (ParamError err)))"
  by (simp add: checked_def)

lemma checked_Inr: "checked (Inr v) k = k v"
  by (simp add: checked_def)

lemma checked_event:
  assumes "e \<in> set (fst (checked r k))"
  obtains v where "r = Inr v" and "e \<in> set (fst (k v))"
  using assms by (cases r) (simp_all add: checked_def)

lemma with_client_events:
  "fst (with_client getClient (emit (Call c) ([], res))) =
     (case getClient of Some err \<Rightarrow> [GetClient] | None \<Rightarrow> [GetClient, Call c])"
  by (simp add: with_client_def emit_def split: option.splits)

lemma with_client_None:
  "with_client None (emit (Call c) ([], res)) = ([GetClient, Call c], res)"
  by (simp add: with_client_def emit_def)

lemma requiredParam_absent:
  "request p = None \<or> request p = Some JNull \<Longrightarrow>
   requiredParam kind request p = Inl (MissingParameter p)"
  by (auto simp: requiredParam_def)

lemma requiredParam_present:
  "request p = Some v \<Longrightarrow> v \<noteq> JNull \<Longrightarrow>
   requiredParam kind request p = (case kind v of None \<Rightarrow> Inl (WrongType p) | Some x \<Rightarrow> Inr x)"
  by (cases v) (simp_all add: requiredParam_def)

lemma requiredParam_Missing_iff:
  "(\<exists>k. requiredParam kind request p = Inl (MissingParameter k)) \<longleftrightarrow>
   (request p = None \<or> request p = Some JNull)"
  by (auto simp: requiredParam_def split: option.splits json.splits)

lemma OptionalParam_string_Inr:
  "OptionalParam as_string '''' request p = Inr s \<Longrightarrow>
   s = (case request p of Some (JString t) \<Rightarrow> t | _ \<Rightarrow> '''')"
  by (auto simp: OptionalParam_def split: option.splits json.splits)

section \<open>Required strings\<close>

text \<open>
  C8. A required string key that is present with the empty string as its value is
  extracted successfully as the empty string; the extraction reports a missing parameter
  exactly when the key is absent or null. In the list handler a request whose owner is
  the empty string passes validation and the empty string reaches the remote call.
\<close>

theorem requiredParam_empty_string:
  "(request p = Some (JString '''') \<longrightarrow> requiredParam as_string request p = Inr '''') \<and>
   ((\<exists>k. requiredParam as_string request p = Inl (MissingParameter k)) \<longleftrightarrow>
      (request p = None \<or> request p = Some JNull)) \<and>
   (request ''owner'' = Some (JString '''') \<and> request ''repo'' = Some (JString repo) \<and>
    OptionalPaginationParams request = Inr pg \<longrightarrow>
      fst (ListReleases None api marshal request) =
        [GetClient,
         Call (Repositories_ListReleases '''' repo
                 \<lparr>lo_Page = page pg, lo_PerPage = perPage pg\<rparr>)])"
proof (intro conjI impI)
  assume "request p = Some (JString '''')"
  then show "requiredParam as_string request p = Inr ''''"
    by (simp add: requiredParam_def)
next
  show "(\<exists>k. requiredParam as_string request p = Inl (MissingParameter k)) \<longleftrightarrow>
          (request p = None \<or> request p = Some JNull)"
    by (rule requiredParam_Missing_iff)
next
  assume a: "request ''owner'' = Some (JString '''') \<and> request ''repo'' = Some (JString repo) \<and>
             OptionalPaginationParams request = Inr pg"
  then have "requiredParam as_string request ''owner'' = Inr ''''"
    and "requiredParam as_string request ''repo'' = Inr repo"
    by (simp_all add: requiredParam_def)
  with a show "fst (ListReleases None api marshal request) =
        [GetClient,
         Call (Repositories_ListReleases '''' repo
                 \<lparr>lo_Page = page pg, lo_PerPage = perPage pg\<rparr>)]"
    by (simp add: ListReleases_def checked_Inr with_client_None Let_def)
qed

theorem requiredParam_empty_string_witness:
  "requiredParam as_string (map_of [(''owner'', JString ''''), (''repo'', JString ''r'')]) ''owner''
     = Inr '''' \<and>
   fst (ListReleases None
          (\<lambda>c. \<lparr>r_err = None, r_StatusCode = 200, r_Body = Inr '''', r_value = ()\<rparr>)
          (\<lambda>v. Inr ''[]'')
          (map_of [(''owner'', JString ''''), (''repo'', JString ''r'')])) =
     [GetClient,
      Call (Repositories_ListReleases '''' ''r'' \<lparr>lo_Page = 1, lo_PerPage = 30\<rparr>)]"
proof -
  let ?request = "map_of [(''owner'', JString ''''), (''repo'', JString ''r'')]"
  have pg: "OptionalPaginationParams ?request = Inr \<lparr>page = 1, perPage = 30\<rparr>"
    by (simp add: OptionalPaginationParams_def optionalInteger_def)
  show ?thesis
    using requiredParam_empty_string
        [where request = ?request and p = "''owner''" and repo = "''r''"
           and pg = "\<lparr>page = 1, perPage = 30\<rparr>"
           and api = "\<lambda>c. \<lparr>r_err = None, r_StatusCode = 200, r_Body = Inr '''', r_value = ()\<rparr>"
           and marshal = "\<lambda>v. Inr ''[]''"]
      pg
    by simp
qed

section \<open>Validation precedes every effect\<close>

lemma checked_failure:
  assumes "\<And>v. \<exists>err. k v = ([], Inr (NewToolResultError (ParamError err)))"
  shows "\<exists>err. checked r k = ([], Inr (NewToolResultError (ParamError err)))"
  using assms by (cases r) (simp_all add: checked_def)

lemma checked_effect:
  assumes "fst (checked r k) \<noteq> []"
  obtains v where "r = Inr v" and "fst (k v) \<noteq> []"
  using assms by (cases r) (simp_all add: checked_def)

lemma finish_not_ParamError:
  "finish what marshalled marshal resp \<noteq> Inr (NewToolResultError (ParamError err))"
  by (simp add: finish_def split: option.splits sum.splits)

lemma with_client_not_ParamError:
  "snd (with_client getClient (emit (Call c) ([], finish what marshalled marshal resp)))
     \<noteq> Inr (NewToolResultError (ParamError err))"
  by (simp add: with_client_def emit_def finish_not_ParamError split: option.splits)

text \<open>
  C7, as the handlers have it. When a required key of the list handler is absent or null
  the handler returns a validation failure as a tool result and does nothing outside: no
  client is asked for and no call is made. The failure is the missing parameter of the
  first such key, unless a required key validated before it is present with the wrong
  kind: then it is the wrong type of that key. Every effect of the list handler comes
  after the three extractions have all succeeded, and a validation failure result always
  comes with no effect. The get, update and user-search handlers equally do nothing
  outside when a required key of theirs is absent or null.
\<close>

theorem ListReleases_validation_first:
  "((request ''owner'' = None \<or> request ''owner'' = Some JNull) \<longrightarrow>
      ListReleases getClient api marshal request =
        ([], Inr (NewToolResultError (ParamError (MissingParameter ''owner''))))) \<and>
   ((request ''repo'' = None \<or> request ''repo'' = Some JNull) \<and>
    request ''owner'' = Some (JString owner) \<longrightarrow>
      ListReleases getClient api marshal request =
        ([], Inr (NewToolResultError (ParamError (MissingParameter ''repo''))))) \<and>
   ((request ''repo'' = None \<or> request ''repo'' = Some JNull) \<and>
    request ''owner'' = Some v \<and> v \<noteq> JNull \<and> as_string v = None \<longrightarrow>
      ListReleases getClient api marshal request =
        ([], Inr (NewToolResultError (ParamError (WrongType ''owner''))))) \<and>
   (fst (ListReleases getClient api marshal request) \<noteq> [] \<longrightarrow>
      (\<exists>owner repo pagination.
         requiredParam as_string request ''owner'' = Inr owner \<and>
         requiredParam as_string request ''repo'' = Inr repo \<and>
         OptionalPaginationParams request = Inr pagination)) \<and>
   (snd (ListReleases getClient api marshal request) =
      Inr (NewToolResultError (ParamError err)) \<longrightarrow>
      fst (ListReleases getClient api marshal request) = []) \<and>
   ((request ''release_id'' = None \<or> request ''release_id'' = Some JNull) \<longrightarrow>
      (\<exists>err. GetRelease getClient api marshal impl request =
         ([], Inr (NewToolResultError (ParamError err)))) \<and>
      (\<exists>err. UpdateRelease getClient api marshal impl request =
         ([], Inr (NewToolResultError (ParamError err))))) \<and>
   ((request ''q'' = None \<or> request ''q'' = Some JNull) \<longrightarrow>
      SearchUsers getClient api' marshal' request =
        ([], Inr (NewToolResultError (ParamError (MissingParameter ''q'')))))"
proof (intro conjI impI)
  assume "request ''owner'' = None \<or> request ''owner'' = Some JNull"
  then show "ListReleases getClient api marshal request =
        ([], Inr (NewToolResultError (ParamError (MissingParameter ''owner''))))"
    by (simp add: ListReleases_def requiredParam_absent checked_Inl)
next
  assume a: "(request ''repo'' = None \<or> request ''repo'' = Some JNull) \<and>
    request ''owner'' = Some (JString owner)"
  then have "requiredParam as_string request ''owner'' = Inr owner"
    by (simp add: requiredParam_def)
  moreover from a have "requiredParam as_string request ''repo'' = Inl (MissingParameter ''repo'')"
    by (simp add: requiredParam_absent)
  ultimately show "ListReleases getClient api marshal request =
        ([], Inr (NewToolResultError (ParamError (MissingParameter ''repo''))))"
    by (simp add: ListReleases_def checked_Inl checked_Inr)
next
  assume "(request ''repo'' = None \<or> request ''repo'' = Some JNull) \<and>
    request ''owner'' = Some v \<and> v \<noteq> JNull \<and> as_string v = None"
  then have "requiredParam as_string request ''owner'' = Inl (WrongType ''owner'')"
    by (simp add: requiredParam_present)
  then show "ListReleases getClient api marshal request =
        ([], Inr (NewToolResultError (ParamError (WrongType ''owner''))))"
    by (simp add: ListReleases_def checked_Inl)
next
  assume "fst (ListReleases getClient api marshal request) \<noteq> []"
  then show "\<exists>owner repo pagination.
         requiredParam as_string request ''owner'' = Inr owner \<and>
         requiredParam as_string request ''repo'' = Inr repo \<and>
         OptionalPaginationParams request = Inr pagination"
    unfolding ListReleases_def by (elim checked_effect) blast
next
  assume "snd (ListReleases getClient api marshal request) =
      Inr (NewToolResultError (ParamError err))"
  then show "fst (ListReleases getClient api marshal request) = []"
    by (auto simp: ListReleases_def checked_def Let_def with_client_not_ParamError
          split: sum.splits)
next
  assume "request ''release_id'' = None \<or> request ''release_id'' = Some JNull"
  then have m: "requiredParam as_float64 request ''release_id'' =
                  Inl (MissingParameter ''release_id'')"
    by (rule requiredParam_absent)
  show "\<exists>err. GetRelease getClient api marshal impl request =
         ([], Inr (NewToolResultError (ParamError err)))"
    unfolding GetRelease_def
    by (rule checked_failure, rule checked_failure) (simp add: m checked_Inl)
  show "\<exists>err. UpdateRelease getClient api marshal impl request =
         ([], Inr (NewToolResultError (ParamError err)))"
    unfolding UpdateRelease_def
    by (rule checked_failure, rule checked_failure) (simp add: m checked_Inl)
next
  assume "request ''q'' = None \<or> request ''q'' = Some JNull"
  then show "SearchUsers getClient api' marshal' request =
        ([], Inr (NewToolResultError (ParamError (MissingParameter ''q''))))"
    by (simp add: SearchUsers_def requiredParam_absent checked_Inl)
qed

theorem ListReleases_validation_first_witness:
  "ListReleases None
     (\<lambda>c. \<lparr>r_err = None, r_StatusCode = 200, r_Body = Inr '''', r_value = ()\<rparr>)
     (\<lambda>v. Inr ''[]'') (map_of [(''repo'', JString ''r'')]) =
     ([], Inr (NewToolResultError (ParamError (MissingParameter ''owner'')))) \<and>
   ListReleases None
     (\<lambda>c. \<lparr>r_err = None, r_StatusCode = 200, r_Body = Inr '''', r_value = ()\<rparr>)
     (\<lambda>v. Inr ''[]'') (map_of [(''owner'', JString ''o'')]) =
     ([], Inr (NewToolResultError (ParamError (MissingParameter ''repo''))))"
proof -
  let ?api = "\<lambda>c::api_call. \<lparr>r_err = None, r_StatusCode = 200, r_Body = Inr '''', r_value = ()\<rparr>"
  let ?marshal = "\<lambda>v::unit. (Inr ''[]'' :: go_error + string)"
  have 1: "ListReleases None ?api ?marshal (map_of [(''repo'', JString ''r'')]) =
     ([], Inr (NewToolResultError (ParamError (MissingParameter ''owner''))))"
    using ListReleases_validation_first
      [where request = "map_of [(''repo'', JString ''r'')]" and getClient = None
         and api = ?api and marshal = ?marshal]
    by simp
  have 2: "ListReleases None ?api ?marshal (map_of [(''owner'', JString ''o'')]) =
     ([], Inr (NewToolResultError (ParamError (MissingParameter ''repo''))))"
    using ListReleases_validation_first
      [where request = "map_of [(''owner'', JString ''o'')]" and getClient = None
         and api = ?api and marshal = ?marshal and owner = "''o''"]
    by simp
  from 1 2 show ?thesis by simp
qed

text \<open>
  The request \<open>{owner: 5}\<close> has no \<open>repo\<close>, yet the failure it gets is not a missing
  parameter: the owner is validated first and is not a string.
\<close>

theorem ListReleases_missing_repo_counterexample:
  "map_of [(''owner'', JNumber 5)] ''repo'' = None \<and>
   ListReleases None
     (\<lambda>c. \<lparr>r_err = None, r_StatusCode = 200, r_Body = Inr '''', r_value = ()\<rparr>)
     (\<lambda>v. Inr ''[]'') (map_of [(''owner'', JNumber 5)]) =
     ([], Inr (NewToolResultError (ParamError (WrongType ''owner''))))"
  by (simp add: ListReleases_def requiredParam_def checked_def)

section \<open>The release identifier\<close>

lemma sint_int64:
  assumes "- (2 ^ 63) \<le> truncate_toward_zero x" and "truncate_toward_zero x < 2 ^ 63"
  shows "sint (int64 impl x) = truncate_toward_zero x"
proof -
  have "sint (word_of_int (truncate_toward_zero x) :: 64 word) = truncate_toward_zero x"
    using assms by (simp add: signed_of_int signed_take_bit_int_eq_self)
  with assms show ?thesis
    by (simp add: int64_def Let_def)
qed

lemma truncate_integral: "integral x \<Longrightarrow> rat_of_int (truncate_toward_zero x) = x"
  by (metis ceiling_of_int floor_of_int integral_def truncate_toward_zero_def)

text \<open>
  C2, as the handler has it. A \<open>release_id\<close> that is a number is extracted as that number
  whether or not it is integral; the extraction fails with a wrong type only for a value
  that is present and not a number. The handler converts the number with \<^verbatim>\<open>int64\<close>:
  when the truncation towards zero fits 64 bits, the identifier passed to the remote call
  is that truncation, which is the number itself when the number is integral.
\<close>

theorem GetRelease_release_id:
  "(request ''release_id'' = Some (JNumber x) \<longrightarrow>
      requiredParam as_float64 request ''release_id'' = Inr x) \<and>
   (request ''release_id'' = Some v \<and> v \<noteq> JNull \<and> as_float64 v = None \<longrightarrow>
      requiredParam as_float64 request ''release_id'' = Inl (WrongType ''release_id'')) \<and>
   (requiredParam as_string request ''owner'' = Inr owner \<and>
    requiredParam as_string request ''repo'' = Inr repo \<and>
    request ''release_id'' = Some (JNumber x) \<longrightarrow>
      fst (GetRelease None api marshal impl request) =
        [GetClient, Call (Repositories_GetRelease owner repo (int64 impl x))]) \<and>
   (- (2 ^ 63) \<le> truncate_toward_zero x \<and> truncate_toward_zero x < 2 ^ 63 \<longrightarrow>
      sint (int64 impl x) = truncate_toward_zero x) \<and>
   (integral x \<longrightarrow> rat_of_int (truncate_toward_zero x) = x)"
proof (intro conjI impI)
  assume "request ''release_id'' = Some (JNumber x)"
  then show "requiredParam as_float64 request ''release_id'' = Inr x"
    by (simp add: requiredParam_def)
next
  assume "request ''release_id'' = Some v \<and> v \<noteq> JNull \<and> as_float64 v = None"
  then show "requiredParam as_float64 request ''release_id'' = Inl (WrongType ''release_id'')"
    by (simp add: requiredParam_present)
next
  assume a: "requiredParam as_string request ''owner'' = Inr owner \<and>
    requiredParam as_string request ''repo'' = Inr repo \<and>
    request ''release_id'' = Some (JNumber x)"
  then have "requiredParam as_float64 request ''release_id'' = Inr x"
    by (simp add: requiredParam_def)
  with a show "fst (GetRelease None api marshal impl request) =
        [GetClient, Call (Repositories_GetRelease owner repo (int64 impl x))]"
    by (simp add: GetRelease_def checked_Inr with_client_None Let_def)
next
  assume "- (2 ^ 63) \<le> truncate_toward_zero x \<and> truncate_toward_zero x < 2 ^ 63"
  then show "sint (int64 impl x) = truncate_toward_zero x"
    by (simp add: sint_int64)
next
  assume "integral x"
  then show "rat_of_int (truncate_toward_zero x) = x"
    by (rule truncate_integral)
qed

theorem GetRelease_release_id_witness:
  "fst (GetRelease None
          (\<lambda>c. \<lparr>r_err = None, r_StatusCode = 200, r_Body = Inr '''', r_value = ()\<rparr>)
          (\<lambda>v. Inr ''{}'') (\<lambda>x. 0)
          (map_of [(''owner'', JString ''o''), (''repo'', JString ''r''),
                   (''release_id'', JNumber 123)])) =
     [GetClient, Call (Repositories_GetRelease ''o'' ''r'' (int64 (\<lambda>x. 0) 123))] \<and>
   sint (int64 (\<lambda>x. 0) 123) = 123"
proof -
  let ?request = "map_of [(''owner'', JString ''o''), (''repo'', JString ''r''),
                          (''release_id'', JNumber 123)]"
  have t: "truncate_toward_zero 123 = 123"
    by (simp add: truncate_toward_zero_def)
  have o: "requiredParam as_string ?request ''owner'' = Inr ''o''"
    and r: "requiredParam as_string ?request ''repo'' = Inr ''r''"
    by (simp_all add: requiredParam_def)
  show ?thesis
    using GetRelease_release_id
      [where request = ?request and x = 123 and v = "JNumber 123" and owner = "''o''"
         and repo = "''r''" and impl = "\<lambda>x. 0"
         and api = "\<lambda>c. \<lparr>r_err = None, r_StatusCode = 200, r_Body = Inr '''', r_value = ()\<rparr>"
         and marshal = "\<lambda>v. Inr ''{}''"]
      t o r
    by simp
qed

text \<open>
  The request \<open>{owner: "o", repo: "r", release_id: 123.5}\<close> is not rejected: the remote
  call is made, for the release 123.
\<close>

theorem GetRelease_fraction_counterexample:
  "requiredParam as_float64
     (map_of [(''owner'', JString ''o''), (''repo'', JString ''r''),
              (''release_id'', JNumber (247 / 2))]) ''release_id'' = Inr (247 / 2) \<and>
   fst (GetRelease None
          (\<lambda>c. \<lparr>r_err = None, r_StatusCode = 200, r_Body = Inr '''', r_value = ()\<rparr>)
          (\<lambda>v. Inr ''{}'') (\<lambda>x. 0)
          (map_of [(''owner'', JString ''o''), (''repo'', JString ''r''),
                   (''release_id'', JNumber (247 / 2))])) =
     [GetClient, Call (Repositories_GetRelease ''o'' ''r'' 123)]"
proof -
  have "int64 (\<lambda>x. 0) (247 / 2) = 123"
    by code_simp
  then show ?thesis
    by (simp add: GetRelease_def requiredParam_def checked_def with_client_None Let_def)
qed

section \<open>The patch of an update\<close>

lemma UpdateRelease_call:
  assumes "Call (Repositories_EditRelease owner repo rid patch)
             \<in> set (fst (UpdateRelease getClient api marshal impl request))"
  obtains tagName targetCommitish name body draft prerelease discussionCategoryName makeLatest
  where "OptionalParam as_string '''' request ''tag_name'' = Inr tagName"
    and "OptionalParam as_string '''' request ''target_commitish'' = Inr targetCommitish"
    and "OptionalParam as_string '''' request ''name'' = Inr name"
    and "OptionalParam as_string '''' request ''body'' = Inr body"
    and "OptionalParam as_bool False request ''draft'' = Inr draft"
    and "OptionalParam as_bool False request ''prerelease'' = Inr prerelease"
    and "OptionalParam as_string '''' request ''discussion_category_name''
           = Inr discussionCategoryName"
    and "OptionalParam as_string '''' request ''make_latest'' = Inr makeLatest"
    and "patch = releaseRequest request tagName targetCommitish name body draft prerelease
                   discussionCategoryName makeLatest"
proof -
  from assms show thesis
    unfolding UpdateRelease_def
  proof (elim checked_event)
    fix v1 v2 v3 v4 v5 v6 v7 v8 v9 v10 v11
    assume v: "OptionalParam as_string '''' request ''tag_name'' = Inr v4"
      "OptionalParam as_string '''' request ''target_commitish'' = Inr v5"
      "OptionalParam as_string '''' request ''name'' = Inr v6"
      "OptionalParam as_string '''' request ''body'' = Inr v7"
      "OptionalParam as_bool False request ''draft'' = Inr v8"
      "OptionalParam as_bool False request ''prerelease'' = Inr v9"
      "OptionalParam as_string '''' request ''discussion_category_name'' = Inr v10"
      "OptionalParam as_string '''' request ''make_latest'' = Inr v11"
    assume "Call (Repositories_EditRelease owner repo rid patch)
      \<in> set (fst (let patch = releaseRequest request v4 v5 v6 v7 v8 v9 v10 v11;
                      call = Repositories_EditRelease v1 v2 (int64 impl v3) patch
                  in with_client getClient
                       (emit (Call call)
                          ([], finish ''update release'' ''response'' marshal (api call)))))"
    then have "patch = releaseRequest request v4 v5 v6 v7 v8 v9 v10 v11"
      by (simp add: Let_def with_client_events split: option.splits)
    with v show thesis
      by (rule that)
  qed
qed

text \<open>
  C1, as the handler has it. Whenever the update handler calls the remote API, the patch
  it sends holds a boolean field (\<open>draft\<close>, \<open>prerelease\<close>) exactly when the request's
  argument is present and not null, with the value supplied, \<open>false\<close> included; and it
  holds a string field (\<open>tag_name\<close>, \<open>target_commitish\<close>, \<open>name\<close>, \<open>body\<close>,
  \<open>discussion_category_name\<close>, \<open>make_latest\<close>) exactly when the request supplies a string
  that is not empty, with that string. An absent or null argument is never in the patch.
\<close>

theorem UpdateRelease_sparse_patch:
  "Call (Repositories_EditRelease owner repo rid patch)
     \<in> set (fst (UpdateRelease getClient api marshal impl request)) \<longrightarrow>
   rr_Draft patch = (case request ''draft'' of Some (JBool b) \<Rightarrow> Some b | _ \<Rightarrow> None) \<and>
   rr_Prerelease patch =
     (case request ''prerelease'' of Some (JBool b) \<Rightarrow> Some b | _ \<Rightarrow> None) \<and>
   (rr_Draft patch \<noteq> None \<longleftrightarrow> arg_not_nil request ''draft'') \<and>
   (rr_Prerelease patch \<noteq> None \<longleftrightarrow> arg_not_nil request ''prerelease'') \<and>
   rr_TagName patch =
     (case request ''tag_name'' of
        Some (JString s) \<Rightarrow> if s \<noteq> '''' then Some s else None | _ \<Rightarrow> None) \<and>
   rr_TargetCommitish patch =
     (case request ''target_commitish'' of
        Some (JString s) \<Rightarrow> if s \<noteq> '''' then Some s else None | _ \<Rightarrow> None) \<and>
   rr_Name patch =
     (case request ''name'' of
        Some (JString s) \<Rightarrow> if s \<noteq> '''' then Some s else None | _ \<Rightarrow> None) \<and>
   rr_Body patch =
     (case request ''body'' of
        Some (JString s) \<Rightarrow> if s \<noteq> '''' then Some s else None | _ \<Rightarrow> None) \<and>
   rr_DiscussionCategoryName patch =
     (case request ''discussion_category_name'' of
        Some (JString s) \<Rightarrow> if s \<noteq> '''' then Some s else None | _ \<Rightarrow> None) \<and>
   rr_MakeLatest patch =
     (case request ''make_latest'' of
        Some (JString s) \<Rightarrow> if s \<noteq> '''' then Some s else None | _ \<Rightarrow> None)"
proof
  assume "Call (Repositories_EditRelease owner repo rid patch)
     \<in> set (fst (UpdateRelease getClient api marshal impl request))"
  then obtain tagName targetCommitish name body draft prerelease discussionCategoryName
      makeLatest
    where tagName: "OptionalParam as_string '''' request ''tag_name'' = Inr tagName"
      and targetCommitish:
        "OptionalParam as_string '''' request ''target_commitish'' = Inr targetCommitish"
      and name: "OptionalParam as_string '''' request ''name'' = Inr name"
      and body: "OptionalParam as_string '''' request ''body'' = Inr body"
      and draft: "OptionalParam as_bool False request ''draft'' = Inr draft"
      and prerelease: "OptionalParam as_bool False request ''prerelease'' = Inr prerelease"
      and discussionCategoryName:
        "OptionalParam as_string '''' request ''discussion_category_name''
           = Inr discussionCategoryName"
      and makeLatest: "OptionalParam as_string '''' request ''make_latest'' = Inr makeLatest"
      and patch: "patch = releaseRequest request tagName targetCommitish name body draft
                    prerelease discussionCategoryName makeLatest"
    by (rule UpdateRelease_call)
  have string_field:
    "(if s \<noteq> '''' then Some s else None) =
       (case request p of
          Some (JString t) \<Rightarrow> if t \<noteq> '''' then Some t else None | _ \<Rightarrow> None)"
    if "OptionalParam as_string '''' request p = Inr s" for s p
    using OptionalParam_string_Inr [OF that]
    by (simp split: option.splits json.splits)
  have bool_field:
    "(if arg_not_nil request p then Some b else None) =
       (case request p of Some (JBool c) \<Rightarrow> Some c | _ \<Rightarrow> None)"
    if "OptionalParam as_bool False request p = Inr b" for b p
    using that
    by (auto simp: OptionalParam_def arg_not_nil_def split: option.splits json.splits)
  have d: "rr_Draft patch = (case request ''draft'' of Some (JBool b) \<Rightarrow> Some b | _ \<Rightarrow> None)"
    by (simp add: patch releaseRequest_def bool_field [OF draft])
  have p: "rr_Prerelease patch =
     (case request ''prerelease'' of Some (JBool b) \<Rightarrow> Some b | _ \<Rightarrow> None)"
    by (simp add: patch releaseRequest_def bool_field [OF prerelease])
  have dn: "rr_Draft patch \<noteq> None \<longleftrightarrow> arg_not_nil request ''draft''"
    by (simp add: patch releaseRequest_def)
  have pn: "rr_Prerelease patch \<noteq> None \<longleftrightarrow> arg_not_nil request ''prerelease''"
    by (simp add: patch releaseRequest_def)
  have s1: "rr_TagName patch =
     (case request ''tag_name'' of
        Some (JString s) \<Rightarrow> if s \<noteq> '''' then Some s else None | _ \<Rightarrow> None)"
    using string_field [OF tagName] by (simp add: patch releaseRequest_def)
  have s2: "rr_TargetCommitish patch =
     (case request ''target_commitish'' of
        Some (JString s) \<Rightarrow> if s \<noteq> '''' then Some s else None | _ \<Rightarrow> None)"
    using string_field [OF targetCommitish] by (simp add: patch releaseRequest_def)
  have s3: "rr_Name patch =
     (case request ''name'' of
        Some (JString s) \<Rightarrow> if s \<noteq> '''' then Some s else None | _ \<Rightarrow> None)"
    using string_field [OF name] by (simp add: patch releaseRequest_def)
  have s4: "rr_Body patch =
     (case request ''body'' of
        Some (JString s) \<Rightarrow> if s \<noteq> '''' then Some s else None | _ \<Rightarrow> None)"
    using string_field [OF body] by (simp add: patch releaseRequest_def)
  have s5: "rr_DiscussionCategoryName patch =
     (case request ''discussion_category_name'' of
        Some (JString s) \<Rightarrow> if s \<noteq> '''' then Some s else None | _ \<Rightarrow> None)"
    using string_field [OF discussionCategoryName] by (simp add: patch releaseRequest_def)
  have s6: "rr_MakeLatest patch =
     (case request ''make_latest'' of
        Some (JString s) \<Rightarrow> if s \<noteq> '''' then Some s else None | _ \<Rightarrow> None)"
    using string_field [OF makeLatest] by (simp add: patch releaseRequest_def)
  from d p dn pn s1 s2 s3 s4 s5 s6
  show "rr_Draft patch = (case request ''draft'' of Some (JBool b) \<Rightarrow> Some b | _ \<Rightarrow> None) \<and>
   rr_Prerelease patch =
     (case request ''prerelease'' of Some (JBool b) \<Rightarrow> Some b | _ \<Rightarrow> None) \<and>
   (rr_Draft patch \<noteq> None \<longleftrightarrow> arg_not_nil request ''draft'') \<and>
   (rr_Prerelease patch \<noteq> None \<longleftrightarrow> arg_not_nil request ''prerelease'') \<and>
   rr_TagName patch =
     (case request ''tag_name'' of
        Some (JString s) \<Rightarrow> if s \<noteq> '''' then Some s else None | _ \<Rightarrow> None) \<and>
   rr_TargetCommitish patch =
     (case request ''target_commitish'' of
        Some (JString s) \<Rightarrow> if s \<noteq> '''' then Some s else None | _ \<Rightarrow> None) \<and>
   rr_Name patch =
     (case request ''name'' of
        Some (JString s) \<Rightarrow> if s \<noteq> '''' then Some s else None | _ \<Rightarrow> None) \<and>
   rr_Body patch =
     (case request ''body'' of
        Some (JString s) \<Rightarrow> if s \<noteq> '''' then Some s else None | _ \<Rightarrow> None) \<and>
   rr_DiscussionCategoryName patch =
     (case request ''discussion_category_name'' of
        Some (JString s) \<Rightarrow> if s \<noteq> '''' then Some s else None | _ \<Rightarrow> None) \<and>
   rr_MakeLatest patch =
     (case request ''make_latest'' of
        Some (JString s) \<Rightarrow> if s \<noteq> '''' then Some s else None | _ \<Rightarrow> None)"
    by (intro conjI)
qed

theorem UpdateRelease_sparse_patch_witness:
  "fst (UpdateRelease None
          (\<lambda>c. \<lparr>r_err = None, r_StatusCode = 200, r_Body = Inr '''', r_value = ()\<rparr>)
          (\<lambda>v. Inr ''{}'') (\<lambda>x. 0)
          (map_of [(''owner'', JString ''o''), (''repo'', JString ''r''),
                   (''release_id'', JNumber 1), (''name'', JString ''v2''),
                   (''draft'', JBool False)])) =
     [GetClient,
      Call (Repositories_EditRelease ''o'' ''r'' 1
              \<lparr>rr_TagName = None, rr_TargetCommitish = None, rr_Name = Some ''v2'',
               rr_Body = None, rr_Draft = Some False, rr_Prerelease = None,
               rr_DiscussionCategoryName = None, rr_MakeLatest = None\<rparr>)] \<and>
   rr_Draft
     \<lparr>rr_TagName = None, rr_TargetCommitish = None, rr_Name = Some ''v2'',
      rr_Body = None, rr_Draft = Some False, rr_Prerelease = None,
      rr_DiscussionCategoryName = None, rr_MakeLatest = None\<rparr> =
     (case map_of [(''owner'', JString ''o''), (''repo'', JString ''r''),
                   (''release_id'', JNumber 1), (''name'', JString ''v2''),
                   (''draft'', JBool False)] ''draft'' of
        Some (JBool b) \<Rightarrow> Some b | _ \<Rightarrow> None)"
proof -
  let ?request = "map_of [(''owner'', JString ''o''), (''repo'', JString ''r''),
                          (''release_id'', JNumber 1), (''name'', JString ''v2''),
                          (''draft'', JBool False)]"
  let ?api = "\<lambda>c::api_call. \<lparr>r_err = None, r_StatusCode = 200, r_Body = Inr '''', r_value = ()\<rparr>"
  let ?marshal = "\<lambda>v::unit. (Inr ''{}'' :: go_error + string)"
  let ?patch = "\<lparr>rr_TagName = None, rr_TargetCommitish = None, rr_Name = Some ''v2'',
               rr_Body = None, rr_Draft = Some False, rr_Prerelease = None,
               rr_DiscussionCategoryName = None, rr_MakeLatest = None\<rparr>"
  have i: "int64 (\<lambda>x. 0) 1 = 1"
    by code_simp
  have t: "fst (UpdateRelease None ?api ?marshal (\<lambda>x. 0) ?request) =
             [GetClient, Call (Repositories_EditRelease ''o'' ''r'' 1 ?patch)]"
    by (simp add: UpdateRelease_def requiredParam_def OptionalParam_def checked_def
          with_client_None Let_def releaseRequest_def arg_not_nil_def i)
  then have "Call (Repositories_EditRelease ''o'' ''r'' 1 ?patch)
               \<in> set (fst (UpdateRelease None ?api ?marshal (\<lambda>x. 0) ?request))"
    by simp
  with UpdateRelease_sparse_patch
         [where request = ?request and getClient = None and api = ?api
            and marshal = ?marshal and impl = "\<lambda>x. 0" and owner = "''o''"
            and repo = "''r''" and rid = 1 and patch = ?patch]
  have "rr_Draft ?patch = (case ?request ''draft'' of Some (JBool b) \<Rightarrow> Some b | _ \<Rightarrow> None)"
    by blast
  with t show ?thesis
    by blast
qed

text \<open>
  The request \<open>{owner: "o", repo: "r", release_id: 1, name: ""}\<close> supplies \<open>name\<close>
  explicitly, with the empty string; the patch that is sent has no name.
\<close>

theorem UpdateRelease_empty_name_counterexample:
  "arg_not_nil
     (map_of [(''owner'', JString ''o''), (''repo'', JString ''r''),
              (''release_id'', JNumber 1), (''name'', JString '''')]) ''name'' \<and>
   fst (UpdateRelease None
          (\<lambda>c. \<lparr>r_err = None, r_StatusCode = 200, r_Body = Inr '''', r_value = ()\<rparr>)
          (\<lambda>v. Inr ''{}'') (\<lambda>x. 0)
          (map_of [(''owner'', JString ''o''), (''repo'', JString ''r''),
                   (''release_id'', JNumber 1), (''name'', JString '''')])) =
     [GetClient,
      Call (Repositories_EditRelease ''o'' ''r'' 1
              \<lparr>rr_TagName = None, rr_TargetCommitish = None, rr_Name = None,
               rr_Body = None, rr_Draft = None, rr_Prerelease = None,
               rr_DiscussionCategoryName = None, rr_MakeLatest = None\<rparr>)]"
proof -
  have "int64 (\<lambda>x. 0) 1 = 1"
    by code_simp
  then show ?thesis
    by (simp add: UpdateRelease_def requiredParam_def OptionalParam_def checked_def
          with_client_None Let_def releaseRequest_def arg_not_nil_def)
qed

section \<open>Cleaning repository contents\<close>

lemma cleanRepositoryContent_no_error:
  "snd (cleanRepositoryContent GetContent content) = None"
  by (simp add: cleanRepositoryContent_def Let_def split: option.splits sum.splits)

lemma cleanRepositoryContent_pair:
  "cleanRepositoryContent GetContent content =
     (fst (cleanRepositoryContent GetContent content), None)"
  by (metis cleanRepositoryContent_no_error prod.collapse)

lemma cleanRepositoryContentLoop_map:
  "cleanRepositoryContentLoop GetContent cleaned contents =
     (Some (cleaned @ map (\<lambda>content. fst (cleanRepositoryContent GetContent content)) contents),
      None)"
proof (induction contents arbitrary: cleaned)
  case Nil
  show ?case by simp
next
  case (Cons content contents)
  obtain cleanedContent
    where c: "cleanRepositoryContent GetContent content = (cleanedContent, None)"
    using cleanRepositoryContent_pair by blast
  then have "cleanRepositoryContentLoop GetContent cleaned (content # contents) =
          cleanRepositoryContentLoop GetContent (cleaned @ [cleanedContent]) contents"
    by simp
  with c show ?case
    by (simp add: Cons.IH)
qed

lemma cleanRepositoryContentSlice_map:
  "cleanRepositoryContentSlice GetContent (Some contents) =
     (Some (map (\<lambda>content. fst (cleanRepositoryContent GetContent content)) contents), None)"
  by (simp add: cleanRepositoryContentSlice_def cleanRepositoryContentLoop_map)

text \<open>
  C3. For a file-content entity whose content field is not nil, cleaning returns a
  cleaned entity and no error. When the decoder succeeds the cleaned content is the
  decoded text and the encoding is \<open>text\<close>; when the decoder fails the cleaned
  content and encoding are the entity's own, unchanged.
\<close>

theorem cleanRepositoryContent_decoding:
  "rc_Content c \<noteq> None \<longrightarrow>
     (\<exists>cleaned.
        cleanRepositoryContent GetContent (Some c) = (Some cleaned, None) \<and>
        (case GetContent c of
           Inr decodedContent \<Rightarrow>
             crc_Content cleaned = Some decodedContent \<and> crc_Encoding cleaned = Some ''text''
         | Inl err \<Rightarrow>
             crc_Content cleaned = rc_Content c \<and> crc_Encoding cleaned = rc_Encoding c))"
  by (simp add: cleanRepositoryContent_def Let_def split: sum.splits)

theorem cleanRepositoryContent_decoding_witness:
  "cleanRepositoryContent (\<lambda>c. Inr ''hi'')
     (Some \<lparr>rc_Type = Some ''file'', rc_Target = None, rc_Encoding = Some ''base64'',
            rc_Size = Some 2, rc_Name = Some ''a.txt'', rc_Path = Some ''a.txt'',
            rc_Content = Some ''aGk='', rc_SHA = Some ''abc''\<rparr>) =
     (Some \<lparr>crc_Type = Some ''file'', crc_Target = None, crc_Encoding = Some ''text'',
            crc_Size = Some 2, crc_Name = Some ''a.txt'', crc_Path = Some ''a.txt'',
            crc_Content = Some ''hi'', crc_SHA = Some ''abc''\<rparr>, None) \<and>
   cleanRepositoryContent (\<lambda>c. Inl ''illegal base64 data at input byte 0'')
     (Some \<lparr>rc_Type = Some ''file'', rc_Target = None, rc_Encoding = Some ''base64'',
            rc_Size = Some 2, rc_Name = Some ''a.bin'', rc_Path = Some ''a.bin'',
            rc_Content = Some ''!!'', rc_SHA = Some ''abc''\<rparr>) =
     (Some \<lparr>crc_Type = Some ''file'', crc_Target = None, crc_Encoding = Some ''base64'',
            crc_Size = Some 2, crc_Name = Some ''a.bin'', crc_Path = Some ''a.bin'',
            crc_Content = Some ''!!'', crc_SHA = Some ''abc''\<rparr>, None)"
proof -
  let ?text = "\<lparr>rc_Type = Some ''file'', rc_Target = None, rc_Encoding = Some ''base64'',
            rc_Size = Some 2, rc_Name = Some ''a.txt'', rc_Path = Some ''a.txt'',
            rc_Content = Some ''aGk='', rc_SHA = Some ''abc''\<rparr>"
  let ?binary = "\<lparr>rc_Type = Some ''file'', rc_Target = None, rc_Encoding = Some ''base64'',
            rc_Size = Some 2, rc_Name = Some ''a.bin'', rc_Path = Some ''a.bin'',
            rc_Content = Some ''!!'', rc_SHA = Some ''abc''\<rparr>"
  let ?ok = "\<lambda>c::RepositoryContent. (Inr ''hi'' :: go_error + string)"
  let ?fail = "\<lambda>c::RepositoryContent. (Inl ''illegal base64 data at input byte 0'' :: go_error + string)"
  obtain cleaned where 1: "cleanRepositoryContent ?ok (Some ?text) = (Some cleaned, None)"
    and "crc_Content cleaned = Some ''hi''" and "crc_Encoding cleaned = Some ''text''"
    using cleanRepositoryContent_decoding [where c = ?text and GetContent = ?ok]
    by auto
  obtain cleaned' where 2: "cleanRepositoryContent ?fail (Some ?binary) = (Some cleaned', None)"
    and "crc_Content cleaned' = Some ''!!''" and "crc_Encoding cleaned' = Some ''base64''"
    using cleanRepositoryContent_decoding [where c = ?binary and GetContent = ?fail]
    by auto
  from 1 2 show ?thesis
    by (simp add: cleanRepositoryContent_def Let_def)
qed

text \<open>
  C9. Cleaning a content entity returns a nil error for every input, nil included, so the
  slice cleaner's error branch is never taken and the slice cleaner returns a nil error
  for every input slice.
\<close>

theorem cleanRepositoryContent_never_fails:
  "snd (cleanRepositoryContent GetContent content) = None \<and>
   (\<forall>cleanedContent err.
      cleanRepositoryContent GetContent content \<noteq> (cleanedContent, Some err)) \<and>
   snd (cleanRepositoryContentSlice GetContent contents) = None"
proof (intro conjI allI)
  show "snd (cleanRepositoryContent GetContent content) = None"
    by (rule cleanRepositoryContent_no_error)
next
  fix cleanedContent err
  show "cleanRepositoryContent GetContent content \<noteq> (cleanedContent, Some err)"
    using cleanRepositoryContent_no_error [of GetContent content] by auto
next
  show "snd (cleanRepositoryContentSlice GetContent contents) = None"
    by (cases contents)
      (simp_all add: cleanRepositoryContentSlice_def cleanRepositoryContentLoop_map)
qed

theorem cleanRepositoryContent_never_fails_witness:
  "snd (cleanRepositoryContent (\<lambda>c. Inl ''unsupported content encoding: gzip'')
          (Some \<lparr>rc_Type = Some ''file'', rc_Target = None, rc_Encoding = Some ''gzip'',
                 rc_Size = Some 2, rc_Name = Some ''a.gz'', rc_Path = Some ''a.gz'',
                 rc_Content = Some ''!!'', rc_SHA = Some ''abc''\<rparr>)) = None \<and>
   snd (cleanRepositoryContentSlice (\<lambda>c. Inl ''unsupported content encoding: gzip'')
          (Some [None,
                 Some \<lparr>rc_Type = Some ''file'', rc_Target = None, rc_Encoding = Some ''gzip'',
                       rc_Size = Some 2, rc_Name = Some ''a.gz'', rc_Path = Some ''a.gz'',
                       rc_Content = Some ''!!'', rc_SHA = Some ''abc''\<rparr>])) = None"
  using cleanRepositoryContent_never_fails
    [where GetContent = "\<lambda>c::RepositoryContent. Inl ''unsupported content encoding: gzip''"
       and content = "Some \<lparr>rc_Type = Some ''file'', rc_Target = None,
                 rc_Encoding = Some ''gzip'',
                 rc_Size = Some 2, rc_Name = Some ''a.gz'', rc_Path = Some ''a.gz'',
                 rc_Content = Some ''!!'', rc_SHA = Some ''abc''\<rparr>"
       and contents = "Some [None,
                 Some \<lparr>rc_Type = Some ''file'', rc_Target = None, rc_Encoding = Some ''gzip'',
                       rc_Size = Some 2, rc_Name = Some ''a.gz'', rc_Path = Some ''a.gz'',
                       rc_Content = Some ''!!'', rc_SHA = Some ''abc''\<rparr>]"]
  by blast

section \<open>Absence and collections\<close>

lemma minimalUser_nil:
  "minimalUser None = \<lparr>mu_Login = '''', mu_ID = 0, mu_ProfileURL = '''', mu_AvatarURL = ''''\<rparr>"
  by (simp add: minimalUser_def getter_def)

lemma minimalUser_Some:
  "minimalUser (Some user) =
     \<lparr>mu_Login = (case u_Login user of None \<Rightarrow> '''' | Some login \<Rightarrow> login),
      mu_ID = (case u_ID user of None \<Rightarrow> 0 | Some i \<Rightarrow> i),
      mu_ProfileURL = (case u_HTMLURL user of None \<Rightarrow> '''' | Some url \<Rightarrow> url),
      mu_AvatarURL = (case u_AvatarURL user of None \<Rightarrow> '''' | Some url \<Rightarrow> url)\<rparr>"
  by (simp add: minimalUser_def getter_def)

lemma minimalResp_items:
  "msr_Items (minimalResp result) =
     map minimalUser (case usr_Users result of None \<Rightarrow> [] | Some users \<Rightarrow> users)"
  by (simp add: minimalResp_def)

text \<open>
  C5, as the sanitizers have it. Each of the six cleaners returns nil for a nil source.
  The slice cleaner and the loops over code results and text matches return a collection
  of the same length in the same order, whose element at each index is the cleaned
  element of the input at that index; a nil element gives a nil element and the call
  still returns its result with no error. A nil slice stays nil, a nil repository of a
  code result stays nil, and a nil owner of a repository stays nil. The user items of a
  user search are values, not pointers: a nil collection of users gives an empty
  collection of items, and every user gives one item at the same index, a nil user the
  item of zero values and any other user its login, id, profile URL and avatar URL with
  the zero value for a nil field; the handler marshals the result so built, and no user
  makes it fail.
\<close>

theorem sanitizers_absence_and_order:
  "cleanRepositoryContent GetContent None = (None, None) \<and>
   cleanRepositoryContentSlice GetContent None = (None, None) \<and>
   cleanRepositoryForSearch None = None \<and>
   cleanTextMatch None = None \<and>
   cleanCodeResult None = None \<and>
   cleanCodeSearchResult None = None \<and>
   cleanRepositoryContentSlice GetContent (Some contents) =
     (Some (map (\<lambda>content. fst (cleanRepositoryContent GetContent content)) contents), None) \<and>
   (\<exists>cleaned.
      cleanRepositoryContentSlice GetContent (Some contents) = (Some cleaned, None) \<and>
      length cleaned = length contents \<and>
      (\<forall>i < length contents.
         cleaned ! i = fst (cleanRepositoryContent GetContent (contents ! i)) \<and>
         (contents ! i = None \<longrightarrow> cleaned ! i = None))) \<and>
   (\<exists>cleaned.
      cleanCodeSearchResult (Some result) = Some cleaned \<and>
      ccsr_CodeResults cleaned = map_option (map cleanCodeResult) (csr_CodeResults result)) \<and>
   (\<exists>cleaned.
      cleanCodeResult (Some codeResult) = Some cleaned \<and>
      ccr_TextMatches cleaned = map_option (map cleanTextMatch) (cres_TextMatches codeResult) \<and>
      ccr_Repository cleaned = cleanRepositoryForSearch (cres_Repository codeResult)) \<and>
   (\<exists>cleaned.
      cleanTextMatch (Some textMatch) = Some cleaned \<and>
      ctm_Matches cleaned = tm_Matches textMatch) \<and>
   (\<exists>cleaned.
      cleanRepositoryForSearch (Some repo) = Some cleaned \<and>
      (cr_Owner cleaned = None \<longleftrightarrow> repo_Owner repo = None)) \<and>
   minimalUser None =
     \<lparr>mu_Login = '''', mu_ID = 0, mu_ProfileURL = '''', mu_AvatarURL = ''''\<rparr> \<and>
   minimalUser (Some user) =
     \<lparr>mu_Login = (case u_Login user of None \<Rightarrow> '''' | Some login \<Rightarrow> login),
      mu_ID = (case u_ID user of None \<Rightarrow> 0 | Some i \<Rightarrow> i),
      mu_ProfileURL = (case u_HTMLURL user of None \<Rightarrow> '''' | Some url \<Rightarrow> url),
      mu_AvatarURL = (case u_AvatarURL user of None \<Rightarrow> '''' | Some url \<Rightarrow> url)\<rparr> \<and>
   msr_TotalCount (minimalResp usersResult) =
     (case usr_Total usersResult of None \<Rightarrow> 0 | Some n \<Rightarrow> n) \<and>
   msr_IncompleteResults (minimalResp usersResult) =
     (case usr_IncompleteResults usersResult of None \<Rightarrow> False | Some b \<Rightarrow> b) \<and>
   (usr_Users usersResult = None \<longrightarrow> msr_Items (minimalResp usersResult) = []) \<and>
   (usr_Users usersResult = Some users \<longrightarrow>
      msr_Items (minimalResp usersResult) = map minimalUser users \<and>
      length (msr_Items (minimalResp usersResult)) = length users \<and>
      (\<forall>i < length users. msr_Items (minimalResp usersResult) ! i = minimalUser (users ! i))) \<and>
   (requiredParam as_string request ''q'' = Inr q \<and>
    OptionalParam as_string '''' request ''sort'' = Inr sortBy \<and>
    OptionalParam as_string '''' request ''order'' = Inr orderBy \<and>
    OptionalPaginationParams request = Inr pagination \<and>
    r_err (api (Search_Users (''type:user '' @ q)
                  \<lparr>so_Sort = sortBy, so_Order = orderBy,
                   so_ListOptions =
                     \<lparr>lo_Page = page pagination, lo_PerPage = perPage pagination\<rparr>\<rparr>)) = None \<and>
    r_StatusCode (api (Search_Users (''type:user '' @ q)
                  \<lparr>so_Sort = sortBy, so_Order = orderBy,
                   so_ListOptions =
                     \<lparr>lo_Page = page pagination, lo_PerPage = perPage pagination\<rparr>\<rparr>)) = 200 \<longrightarrow>
      snd (SearchUsers None api marshal request) =
        (case marshal
                (minimalResp
                   (r_value (api (Search_Users (''type:user '' @ q)
                      \<lparr>so_Sort = sortBy, so_Order = orderBy,
                       so_ListOptions =
                         \<lparr>lo_Page = page pagination,
                          lo_PerPage = perPage pagination\<rparr>\<rparr>)))) of
           Inl err \<Rightarrow> Inl (''failed to marshal response: '' @ err)
         | Inr r \<Rightarrow> Inr (NewToolResultText r)))"
proof (intro conjI)
  show "cleanRepositoryContent GetContent None = (None, None)"
    by (simp add: cleanRepositoryContent_def)
  show "cleanRepositoryContentSlice GetContent None = (None, None)"
    by (simp add: cleanRepositoryContentSlice_def)
  show "cleanRepositoryForSearch None = None"
    by (simp add: cleanRepositoryForSearch_def)
  show "cleanTextMatch None = None"
    by (simp add: cleanTextMatch_def)
  show "cleanCodeResult None = None"
    by (simp add: cleanCodeResult_def)
  show "cleanCodeSearchResult None = None"
    by (simp add: cleanCodeSearchResult_def)
  show "cleanRepositoryContentSlice GetContent (Some contents) =
     (Some (map (\<lambda>content. fst (cleanRepositoryContent GetContent content)) contents), None)"
    by (rule cleanRepositoryContentSlice_map)
  show "\<exists>cleaned.
      cleanRepositoryContentSlice GetContent (Some contents) = (Some cleaned, None) \<and>
      length cleaned = length contents \<and>
      (\<forall>i < length contents.
         cleaned ! i = fst (cleanRepositoryContent GetContent (contents ! i)) \<and>
         (contents ! i = None \<longrightarrow> cleaned ! i = None))"
    by (simp add: cleanRepositoryContentSlice_map cleanRepositoryContent_def)
  show "\<exists>cleaned.
      cleanCodeSearchResult (Some result) = Some cleaned \<and>
      ccsr_CodeResults cleaned = map_option (map cleanCodeResult) (csr_CodeResults result)"
    by (simp add: cleanCodeSearchResult_def Let_def split: option.splits)
  show "\<exists>cleaned.
      cleanCodeResult (Some codeResult) = Some cleaned \<and>
      ccr_TextMatches cleaned = map_option (map cleanTextMatch) (cres_TextMatches codeResult) \<and>
      ccr_Repository cleaned = cleanRepositoryForSearch (cres_Repository codeResult)"
    by (simp add: cleanCodeResult_def cleanRepositoryForSearch_def Let_def
          split: option.splits)
  show "\<exists>cleaned.
      cleanTextMatch (Some textMatch) = Some cleaned \<and>
      ctm_Matches cleaned = tm_Matches textMatch"
    by (simp add: cleanTextMatch_def Let_def)
  show "\<exists>cleaned.
      cleanRepositoryForSearch (Some repo) = Some cleaned \<and>
      (cr_Owner cleaned = None \<longleftrightarrow> repo_Owner repo = None)"
    by (simp add: cleanRepositoryForSearch_def Let_def split: option.splits)
  show "minimalUser None =
     \<lparr>mu_Login = '''', mu_ID = 0, mu_ProfileURL = '''', mu_AvatarURL = ''''\<rparr>"
    by (rule minimalUser_nil)
  show "minimalUser (Some user) =
     \<lparr>mu_Login = (case u_Login user of None \<Rightarrow> '''' | Some login \<Rightarrow> login),
      mu_ID = (case u_ID user of None \<Rightarrow> 0 | Some i \<Rightarrow> i),
      mu_ProfileURL = (case u_HTMLURL user of None \<Rightarrow> '''' | Some url \<Rightarrow> url),
      mu_AvatarURL = (case u_AvatarURL user of None \<Rightarrow> '''' | Some url \<Rightarrow> url)\<rparr>"
    by (rule minimalUser_Some)
  show "msr_TotalCount (minimalResp usersResult) =
     (case usr_Total usersResult of None \<Rightarrow> 0 | Some n \<Rightarrow> n)"
    by (simp add: minimalResp_def)
  show "msr_IncompleteResults (minimalResp usersResult) =
     (case usr_IncompleteResults usersResult of None \<Rightarrow> False | Some b \<Rightarrow> b)"
    by (simp add: minimalResp_def)
  show "usr_Users usersResult = None \<longrightarrow> msr_Items (minimalResp usersResult) = []"
    by (simp add: minimalResp_items)
  show "usr_Users usersResult = Some users \<longrightarrow>
      msr_Items (minimalResp usersResult) = map minimalUser users \<and>
      length (msr_Items (minimalResp usersResult)) = length users \<and>
      (\<forall>i < length users. msr_Items (minimalResp usersResult) ! i = minimalUser (users ! i))"
    by (simp add: minimalResp_items)
  show "requiredParam as_string request ''q'' = Inr q \<and>
    OptionalParam as_string '''' request ''sort'' = Inr sortBy \<and>
    OptionalParam as_string '''' request ''order'' = Inr orderBy \<and>
    OptionalPaginationParams request = Inr pagination \<and>
    r_err (api (Search_Users (''type:user '' @ q)
                  \<lparr>so_Sort = sortBy, so_Order = orderBy,
                   so_ListOptions =
                     \<lparr>lo_Page = page pagination, lo_PerPage = perPage pagination\<rparr>\<rparr>)) = None \<and>
    r_StatusCode (api (Search_Users (''type:user '' @ q)
                  \<lparr>so_Sort = sortBy, so_Order = orderBy,
                   so_ListOptions =
                     \<lparr>lo_Page = page pagination, lo_PerPage = perPage pagination\<rparr>\<rparr>)) = 200 \<longrightarrow>
      snd (SearchUsers None api marshal request) =
        (case marshal
                (minimalResp
                   (r_value (api (Search_Users (''type:user '' @ q)
                      \<lparr>so_Sort = sortBy, so_Order = orderBy,
                       so_ListOptions =
                         \<lparr>lo_Page = page pagination,
                          lo_PerPage = perPage pagination\<rparr>\<rparr>)))) of
           Inl err \<Rightarrow> Inl (''failed to marshal response: '' @ err)
         | Inr r \<Rightarrow> Inr (NewToolResultText r))"
    by (simp add: SearchUsers_def checked_Inr with_client_None Let_def finish_def
          split: sum.splits)
qed

theorem sanitizers_absence_and_order_witness:
  "cleanRepositoryContentSlice (\<lambda>c. Inr ''hi'')
     (Some [None,
            Some \<lparr>rc_Type = Some ''dir'', rc_Target = None, rc_Encoding = None,
                  rc_Size = Some 0, rc_Name = Some ''src'', rc_Path = Some ''src'',
                  rc_Content = None, rc_SHA = Some ''abc''\<rparr>]) =
     (Some [None,
            Some \<lparr>crc_Type = Some ''dir'', crc_Target = None, crc_Encoding = None,
                  crc_Size = Some 0, crc_Name = Some ''src'', crc_Path = Some ''src'',
                  crc_Content = None, crc_SHA = Some ''abc''\<rparr>], None) \<and>
   msr_Items
     (minimalResp
        \<lparr>usr_Total = Some 2, usr_IncompleteResults = Some False,
         usr_Users =
           Some [Some \<lparr>u_Login = Some ''tom'', u_ID = Some 5,
                       u_HTMLURL = Some ''https://github.com/tom'', u_AvatarURL = None\<rparr>,
                 None]\<rparr>) =
     [\<lparr>mu_Login = ''tom'', mu_ID = 5, mu_ProfileURL = ''https://github.com/tom'',
       mu_AvatarURL = ''''\<rparr>,
      \<lparr>mu_Login = '''', mu_ID = 0, mu_ProfileURL = '''', mu_AvatarURL = ''''\<rparr>]"
proof -
  let ?dir = "\<lparr>rc_Type = Some ''dir'', rc_Target = None, rc_Encoding = None,
                  rc_Size = Some 0, rc_Name = Some ''src'', rc_Path = Some ''src'',
                  rc_Content = None, rc_SHA = Some ''abc''\<rparr>"
  let ?GetContent = "\<lambda>c::RepositoryContent. (Inr ''hi'' :: go_error + string)"
  let ?tom = "\<lparr>u_Login = Some ''tom'', u_ID = Some 5,
                u_HTMLURL = Some ''https://github.com/tom'', u_AvatarURL = None\<rparr>"
  let ?users = "[Some ?tom, None]"
  let ?usersResult = "\<lparr>usr_Total = Some 2, usr_IncompleteResults = Some False,
                        usr_Users = Some ?users\<rparr>"
  note t = sanitizers_absence_and_order
      [where GetContent = ?GetContent and contents = "[None, Some ?dir]"
         and usersResult = ?usersResult and users = ?users and user = ?tom]
  have 1: "cleanRepositoryContentSlice ?GetContent (Some [None, Some ?dir]) =
     (Some (map (\<lambda>content. fst (cleanRepositoryContent ?GetContent content))
              [None, Some ?dir]), None)"
    using t by blast
  have u: "usr_Users ?usersResult = Some ?users"
    by simp
  have 2: "msr_Items (minimalResp ?usersResult) = map minimalUser ?users"
    using t u by blast
  have 3: "minimalUser None =
     \<lparr>mu_Login = '''', mu_ID = 0, mu_ProfileURL = '''', mu_AvatarURL = ''''\<rparr>"
    using t by blast
  have "minimalUser (Some ?tom) =
     \<lparr>mu_Login = (case u_Login ?tom of None \<Rightarrow> '''' | Some login \<Rightarrow> login),
      mu_ID = (case u_ID ?tom of None \<Rightarrow> 0 | Some i \<Rightarrow> i),
      mu_ProfileURL = (case u_HTMLURL ?tom of None \<Rightarrow> '''' | Some url \<Rightarrow> url),
      mu_AvatarURL = (case u_AvatarURL ?tom of None \<Rightarrow> '''' | Some url \<Rightarrow> url)\<rparr>"
    using t by blast
  then have 4: "minimalUser (Some ?tom) =
     \<lparr>mu_Login = ''tom'', mu_ID = 5, mu_ProfileURL = ''https://github.com/tom'',
      mu_AvatarURL = ''''\<rparr>"
    by simp
  from 1 have "cleanRepositoryContentSlice ?GetContent (Some [None, Some ?dir]) =
     (Some [None,
            Some \<lparr>crc_Type = Some ''dir'', crc_Target = None, crc_Encoding = None,
                  crc_Size = Some 0, crc_Name = Some ''src'', crc_Path = Some ''src'',
                  crc_Content = None, crc_SHA = Some ''abc''\<rparr>], None)"
    by (simp add: cleanRepositoryContent_def Let_def)
  moreover from 2 3 4 have "msr_Items (minimalResp ?usersResult) =
     [\<lparr>mu_Login = ''tom'', mu_ID = 5, mu_ProfileURL = ''https://github.com/tom'',
       mu_AvatarURL = ''''\<rparr>,
      \<lparr>mu_Login = '''', mu_ID = 0, mu_ProfileURL = '''', mu_AvatarURL = ''''\<rparr>]"
    by simp
  ultimately show ?thesis
    by simp
qed

text \<open>
  The user search is a sanitizer that does not return nil for nil: a nil user among the
  users gives an item that is not nil, the item of zero values, and a nil collection of
  users gives the empty collection.
\<close>

theorem user_items_counterexample:
  "msr_Items
     (minimalResp
        \<lparr>usr_Total = Some 1, usr_IncompleteResults = Some False, usr_Users = Some [None]\<rparr>) =
     [\<lparr>mu_Login = '''', mu_ID = 0, mu_ProfileURL = '''', mu_AvatarURL = ''''\<rparr>] \<and>
   msr_Items
     (minimalResp
        \<lparr>usr_Total = Some 0, usr_IncompleteResults = Some False, usr_Users = None\<rparr>) = []"
  by (simp add: minimalResp_def minimalUser_def getter_def)

section \<open>Repositories in search results keep only their retained fields\<close>

lemma key_if_subset: "k \<in> A \<Longrightarrow> set (key_if field k) \<subseteq> A"
  by (cases field) (simp_all add: key_if_def)

text \<open>
  C4. Cleaning a repository for a search result gives an object whose keys all lie in
  \<open>id\<close>, \<open>name\<close>, \<open>full_name\<close>, \<open>owner\<close>, \<open>private\<close>, \<open>fork\<close>, \<open>html_url\<close>, and whose
  owner, when there is one, has keys among \<open>login\<close>, \<open>id\<close>, \<open>type\<close>. The retained fields
  are the source's, the browse URL \<open>html_url\<close> among them, and the result is the same
  whatever the repository's and the owner's other fields hold.
\<close>

theorem cleanRepositoryForSearch_retained_fields:
  "\<exists>cleaned.
     cleanRepositoryForSearch (Some repo) = Some cleaned \<and>
     set (CleanedRepository_keys cleaned) \<subseteq>
       {''id'', ''name'', ''full_name'', ''owner'', ''private'', ''fork'', ''html_url''} \<and>
     (\<forall>owner. cr_Owner cleaned = Some owner \<longrightarrow>
        set (CleanedUser_keys owner) \<subseteq> {''login'', ''id'', ''type''}) \<and>
     cr_ID cleaned = repo_ID repo \<and> cr_Name cleaned = repo_Name repo \<and>
     cr_FullName cleaned = repo_FullName repo \<and> cr_Private cleaned = repo_Private repo \<and>
     cr_Fork cleaned = repo_Fork repo \<and> cr_HTMLURL cleaned = repo_HTMLURL repo \<and>
     cr_Owner cleaned =
       map_option
         (\<lambda>owner. \<lparr>cu_Login = o_Login owner, cu_ID = o_ID owner, cu_Type = o_Type owner\<rparr>)
         (repo_Owner repo) \<and>
     cleanRepositoryForSearch
       (Some (Repository.more_update (\<lambda>urls. urls')
                (repo\<lparr>repo_Owner :=
                        map_option (Owner.more_update (\<lambda>urls. owner_urls')) (repo_Owner repo)\<rparr>)))
       = Some cleaned"
proof -
  have "\<exists>cleaned. cleanRepositoryForSearch (Some repo) = Some cleaned"
    by (simp add: cleanRepositoryForSearch_def Let_def split: option.splits)
  then obtain cleaned where c: "cleanRepositoryForSearch (Some repo) = Some cleaned"
    by blast
  have keys: "set (CleanedRepository_keys cleaned) \<subseteq>
       {''id'', ''name'', ''full_name'', ''owner'', ''private'', ''fork'', ''html_url''}"
    by (simp add: CleanedRepository_keys_def key_if_subset)
  have owner_keys: "set (CleanedUser_keys owner) \<subseteq> {''login'', ''id'', ''type''}" for owner
    by (simp add: CleanedUser_keys_def key_if_subset)
  have fields: "cr_ID cleaned = repo_ID repo \<and> cr_Name cleaned = repo_Name repo \<and>
     cr_FullName cleaned = repo_FullName repo \<and> cr_Private cleaned = repo_Private repo \<and>
     cr_Fork cleaned = repo_Fork repo \<and> cr_HTMLURL cleaned = repo_HTMLURL repo \<and>
     cr_Owner cleaned =
       map_option
         (\<lambda>owner. \<lparr>cu_Login = o_Login owner, cu_ID = o_ID owner, cu_Type = o_Type owner\<rparr>)
         (repo_Owner repo)"
    using c by (auto simp: cleanRepositoryForSearch_def Let_def split: option.splits)
  have other: "cleanRepositoryForSearch
       (Some (Repository.more_update (\<lambda>urls. urls')
                (repo\<lparr>repo_Owner :=
                        map_option (Owner.more_update (\<lambda>urls. owner_urls')) (repo_Owner repo)\<rparr>)))
       = Some cleaned"
    using c by (auto simp: cleanRepositoryForSearch_def Let_def split: option.splits)
  from c keys owner_keys fields other show ?thesis
    by blast
qed

theorem cleanRepositoryForSearch_retained_fields_witness:
  "cleanRepositoryForSearch
     (Some \<lparr>repo_ID = Some 7, repo_Name = Some ''r'', repo_FullName = Some ''o/r'',
            repo_Owner =
              Some \<lparr>o_Login = Some ''o'', o_ID = Some 3, o_Type = Some ''User'',
                    \<dots> = [(''url'', ''https://api.github.com/users/o'')]\<rparr>,
            repo_Private = Some False, repo_Fork = Some False,
            repo_HTMLURL = Some ''https://github.com/o/r'',
            \<dots> = [(''clone_url'', ''https://github.com/o/r.git''),
                 (''url'', ''https://api.github.com/repos/o/r'')]\<rparr>) =
     Some \<lparr>cr_ID = Some 7, cr_Name = Some ''r'', cr_FullName = Some ''o/r'',
           cr_Owner = Some \<lparr>cu_Login = Some ''o'', cu_ID = Some 3, cu_Type = Some ''User''\<rparr>,
           cr_Private = Some False, cr_Fork = Some False,
           cr_HTMLURL = Some ''https://github.com/o/r''\<rparr> \<and>
   CleanedRepository_keys
     \<lparr>cr_ID = Some 7, cr_Name = Some ''r'', cr_FullName = Some ''o/r'',
      cr_Owner = Some \<lparr>cu_Login = Some ''o'', cu_ID = Some 3, cu_Type = Some ''User''\<rparr>,
      cr_Private = Some False, cr_Fork = Some False,
      cr_HTMLURL = Some ''https://github.com/o/r''\<rparr> =
     [''id'', ''name'', ''full_name'', ''owner'', ''private'', ''fork'', ''html_url'']"
proof -
  let ?owner = "\<lparr>o_Login = Some ''o'', o_ID = Some 3, o_Type = Some ''User'',
                    \<dots> = [(''url'', ''https://api.github.com/users/o'')]\<rparr>"
  let ?repo = "\<lparr>repo_ID = Some 7, repo_Name = Some ''r'', repo_FullName = Some ''o/r'',
            repo_Owner = Some ?owner,
            repo_Private = Some False, repo_Fork = Some False,
            repo_HTMLURL = Some ''https://github.com/o/r'',
            \<dots> = [(''clone_url'', ''https://github.com/o/r.git''),
                 (''url'', ''https://api.github.com/repos/o/r'')]\<rparr>"
  obtain cleaned where c: "cleanRepositoryForSearch (Some ?repo) = Some cleaned"
    and f: "cr_ID cleaned = repo_ID ?repo" "cr_Name cleaned = repo_Name ?repo"
      "cr_FullName cleaned = repo_FullName ?repo" "cr_Private cleaned = repo_Private ?repo"
      "cr_Fork cleaned = repo_Fork ?repo" "cr_HTMLURL cleaned = repo_HTMLURL ?repo"
      "cr_Owner cleaned =
         map_option
           (\<lambda>owner. \<lparr>cu_Login = o_Login owner, cu_ID = o_ID owner, cu_Type = o_Type owner\<rparr>)
           (repo_Owner ?repo)"
    using cleanRepositoryForSearch_retained_fields
      [where repo = ?repo and urls' = "[]" and owner_urls' = "[]"]
    by blast
  from f have "cleaned =
     \<lparr>cr_ID = Some 7, cr_Name = Some ''r'', cr_FullName = Some ''o/r'',
      cr_Owner = Some \<lparr>cu_Login = Some ''o'', cu_ID = Some 3, cu_Type = Some ''User''\<rparr>,
      cr_Private = Some False, cr_Fork = Some False,
      cr_HTMLURL = Some ''https://github.com/o/r''\<rparr>"
    by (cases cleaned) simp
  with c show ?thesis
    by (simp add: CleanedRepository_keys_def key_if_def)
qed

section \<open>The user search query\<close>

text \<open>
  C10. When the four extractions of the user-search handler succeed, with \<open>q\<close> the
  extracted query, and the client is obtained, the handler makes exactly one remote call,
  the user search, and its query is the string \<open>type:user\<close>, a space, and then \<open>q\<close>.
  Whatever the client factory does, a user search that the handler makes has a query of
  this form.
\<close>

theorem SearchUsers_query:
  "(requiredParam as_string request ''q'' = Inr q \<and>
    OptionalParam as_string '''' request ''sort'' = Inr sortBy \<and>
    OptionalParam as_string '''' request ''order'' = Inr orderBy \<and>
    OptionalPaginationParams request = Inr pagination \<longrightarrow>
      fst (SearchUsers None api marshal request) =
        [GetClient,
         Call (Search_Users (''type:user '' @ q)
                 \<lparr>so_Sort = sortBy, so_Order = orderBy,
                  so_ListOptions =
                    \<lparr>lo_Page = page pagination, lo_PerPage = perPage pagination\<rparr>\<rparr>)]) \<and>
   (Call (Search_Users query opts) \<in> set (fst (SearchUsers getClient api marshal request)) \<longrightarrow>
      (\<exists>q. requiredParam as_string request ''q'' = Inr q \<and> query = ''type:user '' @ q))"
proof (intro conjI impI)
  assume "requiredParam as_string request ''q'' = Inr q \<and>
    OptionalParam as_string '''' request ''sort'' = Inr sortBy \<and>
    OptionalParam as_string '''' request ''order'' = Inr orderBy \<and>
    OptionalPaginationParams request = Inr pagination"
  then show "fst (SearchUsers None api marshal request) =
        [GetClient,
         Call (Search_Users (''type:user '' @ q)
                 \<lparr>so_Sort = sortBy, so_Order = orderBy,
                  so_ListOptions =
                    \<lparr>lo_Page = page pagination, lo_PerPage = perPage pagination\<rparr>\<rparr>)]"
    by (simp add: SearchUsers_def checked_Inr with_client_None Let_def)
next
  assume "Call (Search_Users query opts) \<in> set (fst (SearchUsers getClient api marshal request))"
  then show "\<exists>q. requiredParam as_string request ''q'' = Inr q \<and> query = ''type:user '' @ q"
    unfolding SearchUsers_def
  proof (elim checked_event)
    fix v1 v2 v3 v4
    assume q: "requiredParam as_string request ''q'' = Inr v1"
    assume "Call (Search_Users query opts)
      \<in> set (fst (let opts = \<lparr>so_Sort = v2, so_Order = v3,
                              so_ListOptions = \<lparr>lo_Page = page v4, lo_PerPage = perPage v4\<rparr>\<rparr>;
                      call = Search_Users (''type:user '' @ v1) opts
                  in with_client getClient
                       (emit (Call call)
                          ([], finish ''search users'' ''response''
                                 (\<lambda>result. marshal (minimalResp result)) (api call)))))"
    then have "query = ''type:user '' @ v1"
      by (simp add: Let_def with_client_events split: option.splits)
    with q show ?thesis
      by blast
  qed
qed

theorem SearchUsers_query_witness:
  "fst (SearchUsers None
          (\<lambda>c. \<lparr>r_err = None, r_StatusCode = 200, r_Body = Inr '''',
                r_value = \<lparr>usr_Total = Some 0, usr_IncompleteResults = Some False,
                            usr_Users = None\<rparr>\<rparr>)
          (\<lambda>v. Inr ''{}'')
          (map_of [(''q'', JString ''tom'')])) =
     [GetClient,
      Call (Search_Users ''type:user tom''
              \<lparr>so_Sort = '''', so_Order = '''',
               so_ListOptions = \<lparr>lo_Page = 1, lo_PerPage = 30\<rparr>\<rparr>)]"
proof -
  let ?request = "map_of [(''q'', JString ''tom'')]"
  have q: "requiredParam as_string ?request ''q'' = Inr ''tom''"
    by (simp add: requiredParam_def)
  have s: "OptionalParam as_string '''' ?request ''sort'' = Inr ''''"
    and o: "OptionalParam as_string '''' ?request ''order'' = Inr ''''"
    by (simp_all add: OptionalParam_def)
  have p: "OptionalPaginationParams ?request = Inr \<lparr>page = 1, perPage = 30\<rparr>"
    by (simp add: OptionalPaginationParams_def optionalInteger_def)
  show ?thesis
    using SearchUsers_query
      [where request = ?request and q = "''tom''" and sortBy = "''''" and orderBy = "''''"
         and pagination = "\<lparr>page = 1, perPage = 30\<rparr>" and getClient = None
         and api = "\<lambda>c. \<lparr>r_err = None, r_StatusCode = 200, r_Body = Inr '''',
                r_value = \<lparr>usr_Total = Some 0, usr_IncompleteResults = Some False,
                            usr_Users = None\<rparr>\<rparr>"
         and marshal = "\<lambda>v. Inr ''{}''" and query = "''type:user tom''"
         and opts = "\<lparr>so_Sort = '''', so_Order = '''',
               so_ListOptions = \<lparr>lo_Page = 1, lo_PerPage = 30\<rparr>\<rparr>"]
      q s o p
    by simp
qed

end
